theory Spec2Isabelle
  imports Main
begin

section \<open>The request handler and its header buffer\<close>

text \<open>
  \<^verbatim>\<open>serve.py\<close> defines one class, \<^verbatim>\<open>NoCacheHandler\<close>, a subclass of
  \<^verbatim>\<open>http.server.SimpleHTTPRequestHandler\<close> that overrides one method:
  \<^verbatim>\<open>
  class NoCacheHandler(http.server.SimpleHTTPRequestHandler):
      def end_headers(self):
          self.send_header('Cache-Control', 'no-store, no-cache, must-revalidate, max-age=0')
          self.send_header('Pragma', 'no-cache')
          self.send_header('Expires', '0')
          super().end_headers()
  \<close>
  The three methods it calls are inherited from \<^verbatim>\<open>BaseHTTPRequestHandler\<close>
  (CPython, \<^verbatim>\<open>Lib/http/server.py\<close>); they are transcribed below, next to their text.
  The part of a handler object they read and write is the record \<open>handler\<close>:
  the attribute \<^verbatim>\<open>_headers_buffer\<close> may be missing (\<^verbatim>\<open>hasattr\<close>), which is \<open>None\<close>;
  \<^verbatim>\<open>wfile\<close> is the unbuffered socket writer, modelled by the list of the byte strings
  passed to \<^verbatim>\<open>wfile.write\<close>, in call order. The attributes \<^verbatim>\<open>parse_request\<close> sets
  from the request are there as well: \<^verbatim>\<open>command\<close>, \<^verbatim>\<open>path\<close>, \<^verbatim>\<open>request_version\<close>, and
  of \<^verbatim>\<open>headers\<close> the one thing the inherited code reads from it, \<open>if_modified_since\<close>: the
  instant (seconds since the epoch) that the \<^verbatim>\<open>If-Modified-Since\<close> header denotes when that
  header is present, \<^verbatim>\<open>If-None-Match\<close> is absent and the value parses to a date in UTC or
  without a zone; \<open>None\<close> otherwise. \<^verbatim>\<open>directory\<close> is set by
  \<^verbatim>\<open>SimpleHTTPRequestHandler.__init__\<close> to \<^verbatim>\<open>os.getcwd()\<close>.
  \<^verbatim>\<open>parse_request\<close> starts with \<^verbatim>\<open>request_version\<close> at the class default
  \<^verbatim>\<open>'HTTP/0.9'\<close>; it replaces it by the last word of a request line of three words once
  that word is a well-formed HTTP version below 2.0, and leaves it for a request line of two
  words (\<^verbatim>\<open>GET /path\<close>, an HTTP/0.9 request) and while it answers a bad version with an
  error.
  Header names and values are Latin-1 strings (one \<open>char\<close> per code point), so
  \<^verbatim>\<open>.encode('latin-1', 'strict')\<close> is the identity and cannot raise.
\<close>

type_synonym bytes = string

record handler =
  command :: string
  path :: string
  request_version :: string
  if_modified_since :: "nat option"
  directory :: string
  close_connection :: bool
  headers_buffer :: "bytes list option"
  wfile :: "bytes list"

datatype error = AttributeError | ValueError

definition CRLF :: bytes where
  "CRLF = [CHR 0x0D, CHR 0x0A]"

text \<open>\<^verbatim>\<open>str.lower\<close> on a Latin-1 string: A-Z and the accented capitals
  U+00C0..U+00DE (without the multiplication sign U+00D7) move up by 32.\<close>

definition lower_char :: "char \<Rightarrow> char" where
  "lower_char c =
     (let n = (of_char c :: nat)
      in if (65 \<le> n \<and> n \<le> 90) \<or> (192 \<le> n \<and> n \<le> 222 \<and> n \<noteq> 215)
         then char_of (n + 32) else c)"

definition lower :: "string \<Rightarrow> string" where
  "lower k = map lower_char k"

text \<open>
  \<^verbatim>\<open>
  def send_header(self, keyword, value):
      if self.request_version != 'HTTP/0.9':
          if not hasattr(self, '_headers_buffer'):
              self._headers_buffer = []
          self._headers_buffer.append(
              ("%s: %s\r\n" % (keyword, value)).encode('latin-1', 'strict'))
      if keyword.lower() == 'connection':
          if value.lower() == 'close':
              self.close_connection = True
          elif value.lower() == 'keep-alive':
              self.close_connection = False
  \<close>
\<close>

definition header_line :: "string \<Rightarrow> string \<Rightarrow> bytes" where
  "header_line keyword value = keyword @ '': '' @ value @ CRLF"

definition buffered :: "handler \<Rightarrow> bytes list" where
  "buffered s = (case headers_buffer s of None \<Rightarrow> [] | Some b \<Rightarrow> b)"

definition send_header :: "string \<Rightarrow> string \<Rightarrow> handler \<Rightarrow> handler" where
  "send_header keyword value s =
     (let s1 = (if request_version s \<noteq> ''HTTP/0.9''
                then s\<lparr>headers_buffer := Some (buffered s @ [header_line keyword value])\<rparr>
                else s)
      in if lower keyword = ''connection''
         then (if lower value = ''close'' then s1\<lparr>close_connection := True\<rparr>
               else if lower value = ''keep-alive'' then s1\<lparr>close_connection := False\<rparr>
               else s1)
         else s1)"

text \<open>
  \<^verbatim>\<open>
  def flush_headers(self):
      if hasattr(self, '_headers_buffer'):
          self.wfile.write(b"".join(self._headers_buffer))
          self._headers_buffer = []
  \<close>
\<close>

definition flush_headers :: "handler \<Rightarrow> handler" where
  "flush_headers s =
     (case headers_buffer s of
        None \<Rightarrow> s
      | Some b \<Rightarrow> s\<lparr>wfile := wfile s @ [concat b], headers_buffer := Some []\<rparr>)"

text \<open>
  The inherited \<^verbatim>\<open>end_headers\<close>. Appending to a missing \<^verbatim>\<open>_headers_buffer\<close>
  raises \<^verbatim>\<open>AttributeError\<close>.
  \<^verbatim>\<open>
  def end_headers(self):
      if self.request_version != 'HTTP/0.9':
          self._headers_buffer.append(b"\r\n")
          self.flush_headers()
  \<close>
\<close>

definition BaseHTTPRequestHandler_end_headers :: "handler \<Rightarrow> error + handler" where
  "BaseHTTPRequestHandler_end_headers s =
     (if request_version s \<noteq> ''HTTP/0.9''
      then (case headers_buffer s of
              None \<Rightarrow> Inl AttributeError
            | Some b \<Rightarrow> Inr (flush_headers (s\<lparr>headers_buffer := Some (b @ [CRLF])\<rparr>)))
      else Inr s)"

text \<open>The override of \<^verbatim>\<open>serve.py\<close>: three \<^verbatim>\<open>send_header\<close> calls in the source's
  order, then \<^verbatim>\<open>super().end_headers()\<close>.\<close>

definition NoCacheHandler_end_headers :: "handler \<Rightarrow> error + handler" where
  "NoCacheHandler_end_headers s =
     (let s1 = send_header ''Cache-Control'' ''no-store, no-cache, must-revalidate, max-age=0'' s;
          s2 = send_header ''Pragma'' ''no-cache'' s1;
          s3 = send_header ''Expires'' ''0'' s2
      in BaseHTTPRequestHandler_end_headers s3)"

text \<open>The three header lines as they appear on the wire.\<close>

definition no_cache_lines :: "bytes list" where
  "no_cache_lines =
     [header_line ''Cache-Control'' ''no-store, no-cache, must-revalidate, max-age=0'',
      header_line ''Pragma'' ''no-cache'',
      header_line ''Expires'' ''0'']"

section \<open>Status lines\<close>

text \<open>\<^verbatim>\<open>"%d" % code\<close> for a status code: the decimal digits of a natural number.\<close>

fun str_nat :: "nat \<Rightarrow> string" where
  "str_nat n =
     (if n < 10 then [''0123456789'' ! n]
      else str_nat (n div 10) @ [''0123456789'' ! (n mod 10)])"

declare str_nat.simps [simp del]

text \<open>The class attribute \<^verbatim>\<open>protocol_version\<close>, which neither
  \<^verbatim>\<open>SimpleHTTPRequestHandler\<close> nor \<^verbatim>\<open>NoCacheHandler\<close> overrides.\<close>

definition protocol_version :: string where
  "protocol_version = ''HTTP/1.0''"

text \<open>The class attribute \<^verbatim>\<open>responses\<close>: for each member of \<^verbatim>\<open>http.HTTPStatus\<close>
  (CPython 3.11) its reason phrase and its description.\<close>

definition responses :: "(nat \<times> string \<times> string) list" where
  "responses =
  [(100, ''Continue'', ''Request received, please continue''),
   (101, ''Switching Protocols'', ''Switching to new protocol; obey Upgrade header''),
   (102, ''Processing'', []),
   (103, ''Early Hints'', []),
   (200, ''OK'', ''Request fulfilled, document follows''),
   (201, ''Created'', ''Document created, URL follows''),
   (202, ''Accepted'', ''Request accepted, processing continues off-line''),
   (203, ''Non-Authoritative Information'', ''Request fulfilled from cache''),
   (204, ''No Content'', ''Request fulfilled, nothing follows''),
   (205, ''Reset Content'', ''Clear input form for further input''),
   (206, ''Partial Content'', ''Partial content follows''),
   (207, ''Multi-Status'', []),
   (208, ''Already Reported'', []),
   (226, ''IM Used'', []),
   (300, ''Multiple Choices'', ''Object has several resources -- see URI list''),
   (301, ''Moved Permanently'', ''Object moved permanently -- see URI list''),
   (302, ''Found'', ''Object moved temporarily -- see URI list''),
   (303, ''See Other'', ''Object moved -- see Method and URL list''),
   (304, ''Not Modified'', ''Document has not changed since given time''),
   (305, ''Use Proxy'', ''You must use proxy specified in Location to access this resource''),
   (307, ''Temporary Redirect'', ''Object moved temporarily -- see URI list''),
   (308, ''Permanent Redirect'', ''Object moved permanently -- see URI list''),
   (400, ''Bad Request'', ''Bad request syntax or unsupported method''),
   (401, ''Unauthorized'', ''No permission -- see authorization schemes''),
   (402, ''Payment Required'', ''No payment -- see charging schemes''),
   (403, ''Forbidden'', ''Request forbidden -- authorization will not help''),
   (404, ''Not Found'', ''Nothing matches the given URI''),
   (405, ''Method Not Allowed'', ''Specified method is invalid for this resource''),
   (406, ''Not Acceptable'', ''URI not available in preferred format''),
   (407, ''Proxy Authentication Required'', ''You must authenticate with this proxy before proceeding''),
   (408, ''Request Timeout'', ''Request timed out; try again later''),
   (409, ''Conflict'', ''Request conflict''),
   (410, ''Gone'', ''URI no longer exists and has been permanently removed''),
   (411, ''Length Required'', ''Client must specify Content-Length''),
   (412, ''Precondition Failed'', ''Precondition in headers is false''),
   (413, ''Request Entity Too Large'', ''Entity is too large''),
   (414, ''Request-URI Too Long'', ''URI is too long''),
   (415, ''Unsupported Media Type'', ''Entity body in unsupported format''),
   (416, ''Requested Range Not Satisfiable'', ''Cannot satisfy request range''),
   (417, ''Expectation Failed'', ''Expect condition could not be satisfied''),
   (418, (''I'' @ [CHR 0x27] @ ''m a Teapot''), ''Server refuses to brew coffee because it is a teapot.''),
   (421, ''Misdirected Request'', ''Server is not able to produce a response''),
   (422, ''Unprocessable Entity'', []),
   (423, ''Locked'', []),
   (424, ''Failed Dependency'', []),
   (425, ''Too Early'', []),
   (426, ''Upgrade Required'', []),
   (428, ''Precondition Required'', ''The origin server requires the request to be conditional''),
   (429, ''Too Many Requests'', (''The user has sent too many requests in a given amount of time ('' @ [CHR 0x22] @ ''rate limiting'' @ [CHR 0x22] @ '')'')),
   (431, ''Request Header Fields Too Large'', ''The server is unwilling to process the request because its header fields are too large''),
   (451, ''Unavailable For Legal Reasons'', ''The server is denying access to the resource as a consequence of a legal demand''),
   (500, ''Internal Server Error'', ''Server got itself in trouble''),
   (501, ''Not Implemented'', ''Server does not support this operation''),
   (502, ''Bad Gateway'', ''Invalid responses from another server/proxy''),
   (503, ''Service Unavailable'', ''The server cannot process the request due to a high load''),
   (504, ''Gateway Timeout'', ''The gateway server did not receive a timely response''),
   (505, ''HTTP Version Not Supported'', ''Cannot fulfill request''),
   (506, ''Variant Also Negotiates'', []),
   (507, ''Insufficient Storage'', []),
   (508, ''Loop Detected'', []),
   (510, ''Not Extended'', []),
   (511, ''Network Authentication Required'', ''The client needs to authenticate to gain network access'')]"

definition status_line :: "nat \<Rightarrow> string \<Rightarrow> bytes" where
  "status_line code message =
     protocol_version @ '' '' @ str_nat code @ '' '' @ message @ CRLF"

text \<open>
  \<^verbatim>\<open>
  def send_response_only(self, code, message=None):
      if self.request_version != 'HTTP/0.9':
          if message is None:
              if code in self.responses:
                  message = self.responses[code][0]
              else:
                  message = ''
          if not hasattr(self, '_headers_buffer'):
              self._headers_buffer = []
          self._headers_buffer.append(("%s %d %s\r\n" %
                  (self.protocol_version, code, message)).encode(
                      'latin-1', 'strict'))
  \<close>
\<close>

definition send_response_only :: "nat \<Rightarrow> string option \<Rightarrow> handler \<Rightarrow> handler" where
  "send_response_only code message s =
     (if request_version s \<noteq> ''HTTP/0.9''
      then (let m = (case message of
                       None \<Rightarrow> (case map_of responses code of
                                  Some (phrase, description) \<Rightarrow> phrase
                                | None \<Rightarrow> [])
                     | Some m \<Rightarrow> m)
            in s\<lparr>headers_buffer := Some (buffered s @ [status_line code m])\<rparr>)
      else s)"

section \<open>The baseline handler's calls, with \<^verbatim>\<open>end_headers\<close> dispatched\<close>

text \<open>
  Everything else a request goes through (\<^verbatim>\<open>parse_request\<close>, \<^verbatim>\<open>do_GET\<close>,
  \<^verbatim>\<open>do_HEAD\<close>, \<^verbatim>\<open>send_head\<close>, \<^verbatim>\<open>list_directory\<close>, \<^verbatim>\<open>send_error\<close>,
  \<^verbatim>\<open>handle_expect_100\<close>) is inherited code. It builds a response through four operations
  on \<^verbatim>\<open>self\<close> only: \<^verbatim>\<open>send_response_only\<close>, \<^verbatim>\<open>send_header\<close>, \<^verbatim>\<open>end_headers\<close> and
  \<^verbatim>\<open>wfile.write\<close>; \<^verbatim>\<open>flush_headers\<close> is called from \<^verbatim>\<open>end_headers\<close> alone, and no
  inherited method reads \<^verbatim>\<open>_headers_buffer\<close> or \<^verbatim>\<open>wfile\<close> to decide what to do.
  What the inherited code does for one request is therefore a list of such calls, fixed by the
  request and the file system. Python looks \<^verbatim>\<open>self.end_headers\<close> up in the class of the
  object, so the same list runs with \<^verbatim>\<open>BaseHTTPRequestHandler.end_headers\<close> in a plain
  \<^verbatim>\<open>SimpleHTTPRequestHandler\<close> and with the override in a \<^verbatim>\<open>NoCacheHandler\<close>: the method
  is the first argument of \<open>exec\<close>. An exception ends the run. (The one exception the
  inherited code lets through by itself, from \<^verbatim>\<open>open\<close>, comes before its first call: it is
  the value \<open>Inl\<close> of the methods further down, not a call.)
\<close>

datatype call =
    Send_response_only nat "string option"
  | Send_header string string
  | End_headers
  | Wfile_write bytes

fun exec1 :: "(handler \<Rightarrow> error + handler) \<Rightarrow> call \<Rightarrow> handler \<Rightarrow> error + handler" where
  "exec1 end_headers (Send_response_only code message) s = Inr (send_response_only code message s)"
| "exec1 end_headers (Send_header keyword value) s = Inr (send_header keyword value s)"
| "exec1 end_headers End_headers s = end_headers s"
| "exec1 end_headers (Wfile_write b) s = Inr (s\<lparr>wfile := wfile s @ [b]\<rparr>)"

fun exec :: "(handler \<Rightarrow> error + handler) \<Rightarrow> call list \<Rightarrow> handler \<Rightarrow> error + handler" where
  "exec end_headers [] s = Inr s"
| "exec end_headers (c # cs) s =
     (case exec1 end_headers c s of
        Inl e \<Rightarrow> Inl e
      | Inr s' \<Rightarrow> exec end_headers cs s')"

text \<open>The status lines and the body writes a list of calls asks for.\<close>

fun statuses :: "call list \<Rightarrow> (nat \<times> string option) list" where
  "statuses [] = []"
| "statuses (Send_response_only code message # cs) = (code, message) # statuses cs"
| "statuses (c # cs) = statuses cs"

fun bodies :: "call list \<Rightarrow> bytes list" where
  "bodies [] = []"
| "bodies (Wfile_write b # cs) = b # bodies cs"
| "bodies (c # cs) = bodies cs"

text \<open>
  The specification's description of the wrapper: the baseline's output with the
  header-override step placed immediately before the headers are finalised.
  \<open>inject\<close> rewrites a list of calls accordingly and touches nothing else.
\<close>

fun inject :: "call list \<Rightarrow> call list" where
  "inject [] = []"
| "inject (End_headers # cs) =
     Send_header ''Cache-Control'' ''no-store, no-cache, must-revalidate, max-age=0'' #
     Send_header ''Pragma'' ''no-cache'' #
     Send_header ''Expires'' ''0'' #
     End_headers # inject cs"
| "inject (c # cs) = c # inject cs"

text \<open>Two writes to the client are related when they are the same bytes, or the second is
  the first with the three no-cache lines put in front of its closing blank line.\<close>

definition same_or_injected :: "bytes \<Rightarrow> bytes \<Rightarrow> bool" where
  "same_or_injected b n \<longleftrightarrow>
     n = b \<or> (\<exists>h. b = concat (h @ [CRLF]) \<and> n = concat (h @ no_cache_lines @ [CRLF]))"

text \<open>Two handlers agree on everything but what was written to the client.\<close>

definition same_but_wfile :: "handler \<Rightarrow> handler \<Rightarrow> bool" where
  "same_but_wfile sb sn \<longleftrightarrow> sn = sb\<lparr>wfile := wfile sn\<rparr>"

section \<open>Strings and paths\<close>

text \<open>The string methods and the \<^verbatim>\<open>posixpath\<close> functions the inherited code and the first
  line of \<^verbatim>\<open>serve.py\<close> use.\<close>

definition startswith :: "string \<Rightarrow> string \<Rightarrow> bool" where
  "startswith s p \<longleftrightarrow> take (length p) s = p"

definition endswith :: "string \<Rightarrow> string \<Rightarrow> bool" where
  "endswith s p \<longleftrightarrow> length p \<le> length s \<and> drop (length s - length p) s = p"

text \<open>\<^verbatim>\<open>s.split(sep)\<close> for a separator of one character: never an empty list.\<close>

fun str_split :: "char \<Rightarrow> string \<Rightarrow> string list" where
  "str_split sep [] = [[]]"
| "str_split sep (c # cs) =
     (if c = sep then [] # str_split sep cs
      else (case str_split sep cs of
              [] \<Rightarrow> [[c]]
            | w # ws \<Rightarrow> (c # w) # ws))"

text \<open>\<^verbatim>\<open>sep.join(xs)\<close>.\<close>

fun str_join :: "string \<Rightarrow> string list \<Rightarrow> string" where
  "str_join sep [] = []"
| "str_join sep [x] = x"
| "str_join sep (x # y # ys) = x @ sep @ str_join sep (y # ys)"

text \<open>\<^verbatim>\<open>str.isspace\<close> on one Latin-1 character, and \<^verbatim>\<open>s.rstrip()\<close>.\<close>

definition isspace :: "char \<Rightarrow> bool" where
  "isspace c \<longleftrightarrow> (of_char c :: nat) \<in> {9, 10, 11, 12, 13, 28, 29, 30, 31, 32, 133, 160}"

definition rstrip :: "string \<Rightarrow> string" where
  "rstrip s = rev (dropWhile isspace (rev s))"

text \<open>
  \<^verbatim>\<open>
  def join(a, *p):             # posixpath, for one further component b
      path = a
      if b.startswith(sep): path = b
      elif not path or path.endswith(sep): path += b
      else: path += sep + b
      return path
  \<close>
\<close>

definition join :: "string \<Rightarrow> string \<Rightarrow> string" where
  "join a b =
     (if startswith b ''/'' then b
      else if a = [] \<or> endswith a ''/'' then a @ b
      else a @ ''/'' @ b)"

text \<open>
  \<^verbatim>\<open>
  def dirname(p):
      i = p.rfind(sep) + 1
      head = p[:i]
      if head and head != sep*len(head):
          head = head.rstrip(sep)
      return head
  \<close>
\<close>

definition dirname :: "string \<Rightarrow> string" where
  "dirname p =
     (let head = rev (dropWhile (\<lambda>c. c \<noteq> CHR ''/'') (rev p))
      in if head \<noteq> [] \<and> head \<noteq> replicate (length head) CHR ''/''
         then rev (dropWhile (\<lambda>c. c = CHR ''/'') (rev head))
         else head)"

text \<open>
  \<^verbatim>\<open>
  def normpath(path):
      if path == empty: return dot
      initial_slashes = path.startswith(sep)
      if (initial_slashes and
          path.startswith(sep*2) and not path.startswith(sep*3)):
          initial_slashes = 2
      comps = path.split(sep)
      new_comps = []
      for comp in comps:
          if comp in (empty, dot):
              continue
          if (comp != dotdot or (not initial_slashes and not new_comps) or
               (new_comps and new_comps[-1] == dotdot)):
              new_comps.append(comp)
          elif new_comps:
              new_comps.pop()
      comps = new_comps
      path = sep.join(comps)
      if initial_slashes:
          path = sep*initial_slashes + path
      return path or dot
  \<close>
  The loop is \<open>normpath_comps\<close>, with \<^verbatim>\<open>new_comps\<close> as its last argument and \<open>part\<close>
  for \<^verbatim>\<open>comp\<close>.
\<close>

fun normpath_comps :: "bool \<Rightarrow> string list \<Rightarrow> string list \<Rightarrow> string list" where
  "normpath_comps initial_slashes [] new_comps = new_comps"
| "normpath_comps initial_slashes (part # comps) new_comps =
     (if part = [] \<or> part = ''.'' then normpath_comps initial_slashes comps new_comps
      else if part \<noteq> ''..'' \<or> (\<not> initial_slashes \<and> new_comps = []) \<or>
              (new_comps \<noteq> [] \<and> last new_comps = ''..'')
      then normpath_comps initial_slashes comps (new_comps @ [part])
      else if new_comps \<noteq> [] then normpath_comps initial_slashes comps (butlast new_comps)
      else normpath_comps initial_slashes comps new_comps)"

definition normpath :: "string \<Rightarrow> string" where
  "normpath p =
     (if p = [] then ''.''
      else
        (let initial_slashes =
               (if startswith p ''/''
                then (if startswith p ''//'' \<and> \<not> startswith p ''///'' then 2 else 1)
                else (0::nat));
             comps = normpath_comps (initial_slashes \<noteq> 0) (str_split CHR ''/'' p) [];
             joined = replicate initial_slashes CHR ''/'' @ str_join ''/'' comps
         in if joined = [] then ''.'' else joined))"

text \<open>
  \<^verbatim>\<open>
  def abspath(path):
      if not isabs(path):
          cwd = os.getcwd()
          path = join(cwd, path)
      return normpath(path)
  \<close>
  The working directory is the first argument.
\<close>

definition abspath :: "string \<Rightarrow> string \<Rightarrow> string" where
  "abspath cwd p = normpath (if startswith p ''/'' then p else join cwd p)"

section \<open>What a request handler finds outside itself\<close>

text \<open>
  A file as \<^verbatim>\<open>send_head\<close> sees it once opened: the bytes \<^verbatim>\<open>read\<close> delivers, and of
  \<^verbatim>\<open>os.fstat\<close> the size (\<^verbatim>\<open>fs[6]\<close>) and the modification time in whole seconds.
\<close>

record file_object =
  content :: bytes
  st_size :: nat
  st_mtime :: nat

text \<open>
  The answers of the operating system and of library functions that are not transcribed
  here, at the time of one request. Every theorem below that mentions an \<open>env\<close> holds for
  all of them.
  \<^item> \<open>version_string\<close>: \<^verbatim>\<open>self.version_string()\<close>; \<open>clock\<close>: \<^verbatim>\<open>time.time()\<close> in whole
    seconds; \<open>date_time_string\<close>: \<^verbatim>\<open>email.utils.formatdate(timestamp, usegmt=True)\<close>;
  \<^item> \<open>isdir\<close>, \<open>isfile\<close>: \<^verbatim>\<open>os.path.isdir\<close>, \<^verbatim>\<open>os.path.isfile\<close> (neither raises);
    \<open>fopen\<close>: \<^verbatim>\<open>open(path, 'rb')\<close>, with its three outcomes;
  \<^item> \<open>listdir_page\<close>: the encoded HTML page \<^verbatim>\<open>list_directory\<close> builds for a directory and
    the request path, \<open>None\<close> when \<^verbatim>\<open>os.listdir\<close> raises \<^verbatim>\<open>OSError\<close>;
    \<open>filesystemencoding\<close>: \<^verbatim>\<open>sys.getfilesystemencoding()\<close>;
  \<^item> \<open>unquote_escapes\<close>: \<^verbatim>\<open>urllib.parse.unquote\<close> on a string that contains \<^verbatim>\<open>%\<close>;
    \<open>urlsplit_path\<close>: \<^verbatim>\<open>urllib.parse.urlsplit(p).path\<close>; \<open>redirect_url\<close>: the URL rebuilt by
    \<^verbatim>\<open>urlunsplit\<close> with \<^verbatim>\<open>/\<close> appended to that path;
  \<^item> \<open>guess_type\<close>: \<^verbatim>\<open>self.guess_type\<close>; \<open>error_page\<close>: \<^verbatim>\<open>error_message_format\<close> filled
    in with the code, the escaped message and the escaped explanation, encoded in UTF-8;
    \<open>repr\<close>: \<^verbatim>\<open>repr\<close> of a string.
\<close>

text \<open>
  \<^verbatim>\<open>open(path, 'rb')\<close> returns the file, or raises \<^verbatim>\<open>OSError\<close> (no such file, a directory,
  permission denied), or raises \<^verbatim>\<open>ValueError\<close>: for a path with an embedded null character,
  and, as its subclass \<^verbatim>\<open>UnicodeEncodeError\<close>, for a path the file system encoding cannot
  express. \<^verbatim>\<open>send_head\<close> catches the first exception only.
\<close>

datatype opened = Opened file_object | Raises_OSError | Raises_ValueError

record env =
  version_string :: string
  clock :: nat
  date_time_string :: "nat \<Rightarrow> string"
  isdir :: "string \<Rightarrow> bool"
  isfile :: "string \<Rightarrow> bool"
  fopen :: "string \<Rightarrow> opened"
  listdir_page :: "string \<Rightarrow> string \<Rightarrow> bytes option"
  filesystemencoding :: string
  unquote_escapes :: "string \<Rightarrow> string"
  urlsplit_path :: "string \<Rightarrow> string"
  redirect_url :: "string \<Rightarrow> string"
  guess_type :: "string \<Rightarrow> string"
  error_page :: "nat \<Rightarrow> string \<Rightarrow> string \<Rightarrow> bytes"
  repr :: "string \<Rightarrow> string"

section \<open>The inherited request handling (CPython 3.11, \<^verbatim>\<open>Lib/http/server.py\<close>)\<close>

text \<open>
  Each inherited method is the list of calls it makes on \<^verbatim>\<open>self\<close>, computed from the
  handler's request attributes and the environment. Logging (\<^verbatim>\<open>log_request\<close>,
  \<^verbatim>\<open>log_error\<close>) writes to \<^verbatim>\<open>sys.stderr\<close> and is left out.
  \<^verbatim>\<open>
  def send_response(self, code, message=None):
      self.log_request(code)
      self.send_response_only(code, message)
      self.send_header('Server', self.version_string())
      self.send_header('Date', self.date_time_string())
  \<close>
\<close>

definition send_response :: "env \<Rightarrow> nat \<Rightarrow> string option \<Rightarrow> call list" where
  "send_response e code message =
     [Send_response_only code message,
      Send_header ''Server'' (version_string e),
      Send_header ''Date'' (date_time_string e (clock e))]"

definition error_content_type :: string where
  "error_content_type = ''text/html;charset=utf-8''"

text \<open>
  \<^verbatim>\<open>
  def send_error(self, code, message=None, explain=None):
      try:
          shortmsg, longmsg = self.responses[code]
      except KeyError:
          shortmsg, longmsg = '???', '???'
      if message is None:
          message = shortmsg
      if explain is None:
          explain = longmsg
      self.log_error("code %d, message %s", code, message)
      self.send_response(code, message)
      self.send_header('Connection', 'close')
      body = None
      if (code >= 200 and
          code not in (HTTPStatus.NO_CONTENT,
                       HTTPStatus.RESET_CONTENT,
                       HTTPStatus.NOT_MODIFIED)):
          content = (self.error_message_format % {
              'code': code,
              'message': html.escape(message, quote=False),
              'explain': html.escape(explain, quote=False)
          })
          body = content.encode('UTF-8', 'replace')
          self.send_header("Content-Type", self.error_content_type)
          self.send_header('Content-Length', str(len(body)))
      self.end_headers()
      if self.command != 'HEAD' and body:
          self.wfile.write(body)
  \<close>
\<close>

definition send_error :: "env \<Rightarrow> handler \<Rightarrow> nat \<Rightarrow> string option \<Rightarrow> string option \<Rightarrow> call list" where
  "send_error e s code message explain =
     (let (shortmsg, longmsg) =
            (case map_of responses code of Some r \<Rightarrow> r | None \<Rightarrow> (''???'', ''???''));
          message = (case message of None \<Rightarrow> shortmsg | Some m \<Rightarrow> m);
          explain = (case explain of None \<Rightarrow> longmsg | Some x \<Rightarrow> x);
          body = (if code \<ge> 200 \<and> code \<noteq> 204 \<and> code \<noteq> 205 \<and> code \<noteq> 304
                  then Some (error_page e code message explain) else None)
      in send_response e code (Some message) @
         [Send_header ''Connection'' ''close''] @
         (case body of
            None \<Rightarrow> []
          | Some b \<Rightarrow> [Send_header ''Content-Type'' error_content_type,
                       Send_header ''Content-Length'' (str_nat (length b))]) @
         [End_headers] @
         (case body of
            None \<Rightarrow> []
          | Some b \<Rightarrow> if command s \<noteq> ''HEAD'' \<and> b \<noteq> [] then [Wfile_write b] else []))"

text \<open>
  \<^verbatim>\<open>urllib.parse.unquote\<close> returns a string without \<^verbatim>\<open>%\<close> as it is:
  \<^verbatim>\<open>
      if '%' not in string:
          string.split
          return string
  \<close>
\<close>

definition unquote :: "env \<Rightarrow> string \<Rightarrow> string" where
  "unquote e p = (if CHR ''%'' \<notin> set p then p else unquote_escapes e p)"

text \<open>
  \<^verbatim>\<open>
  def translate_path(self, path):
      path = path.split('?',1)[0]
      path = path.split('#',1)[0]
      trailing_slash = path.rstrip().endswith('/')
      try:
          path = urllib.parse.unquote(path, errors='surrogatepass')
      except UnicodeDecodeError:
          path = urllib.parse.unquote(path)
      path = posixpath.normpath(path)
      words = path.split('/')
      words = filter(None, words)
      path = self.directory
      for word in words:
          if os.path.dirname(word) or word in (os.curdir, os.pardir):
              continue
          path = os.path.join(path, word)
      if trailing_slash:
          path += '/'
      return path
  \<close>
  The loop is \<open>translate_words\<close>.
\<close>

fun translate_words :: "string \<Rightarrow> string list \<Rightarrow> string" where
  "translate_words p [] = p"
| "translate_words p (word # ws) =
     (if dirname word \<noteq> [] \<or> word = ''.'' \<or> word = ''..'' then translate_words p ws
      else translate_words (join p word) ws)"

definition translate_path :: "env \<Rightarrow> handler \<Rightarrow> string \<Rightarrow> string" where
  "translate_path e s p =
     (let p1 = takeWhile (\<lambda>c. c \<noteq> CHR ''?'') p;
          p2 = takeWhile (\<lambda>c. c \<noteq> CHR ''#'') p1;
          trailing_slash = endswith (rstrip p2) ''/'';
          p3 = normpath (unquote e p2);
          ws = filter (\<lambda>w. w \<noteq> []) (str_split CHR ''/'' p3);
          r = translate_words (directory s) ws
      in if trailing_slash then r @ ''/'' else r)"

text \<open>
  \<^verbatim>\<open>list_directory\<close>: when \<^verbatim>\<open>os.listdir\<close> raises, a 404; otherwise the page is
  built, encoded and returned as a file object after
  \<^verbatim>\<open>
      self.send_response(HTTPStatus.OK)
      self.send_header("Content-type", "text/html; charset=%s" % enc)
      self.send_header("Content-Length", str(len(encoded)))
      self.end_headers()
      return f
  \<close>
  A method that returns a file object returns, here, the bytes that file delivers.
\<close>

definition list_directory :: "env \<Rightarrow> handler \<Rightarrow> string \<Rightarrow> call list \<times> bytes option" where
  "list_directory e s p =
     (case listdir_page e p (path s) of
        None \<Rightarrow> (send_error e s 404 (Some ''No permission to list directory'') None, None)
      | Some encoded \<Rightarrow>
          (send_response e 200 None @
           [Send_header ''Content-type'' (''text/html; charset='' @ filesystemencoding e),
            Send_header ''Content-Length'' (str_nat (length encoded)),
            End_headers],
           Some encoded))"

text \<open>
  \<^verbatim>\<open>send_head\<close> from \<^verbatim>\<open>ctype = self.guess_type(path)\<close> on, for the path it has settled on.
  Only \<^verbatim>\<open>OSError\<close> is caught around \<^verbatim>\<open>open\<close>: any other exception leaves the method, and
  every method up to \<^verbatim>\<open>handle_one_request\<close>, before a single call has been made; the result
  is then \<open>Inl\<close> of that exception.
  \<^verbatim>\<open>
      ctype = self.guess_type(path)
      if path.endswith("/"):
          self.send_error(HTTPStatus.NOT_FOUND, "File not found")
          return None
      try:
          f = open(path, 'rb')
      except OSError:
          self.send_error(HTTPStatus.NOT_FOUND, "File not found")
          return None
      try:
          fs = os.fstat(f.fileno())
          if ("If-Modified-Since" in self.headers
                  and "If-None-Match" not in self.headers):
              ...                      # ims: the header's date, when it parses
                  if last_modif <= ims:
                      self.send_response(HTTPStatus.NOT_MODIFIED)
                      self.end_headers()
                      f.close()
                      return None
          self.send_response(HTTPStatus.OK)
          self.send_header("Content-type", ctype)
          self.send_header("Content-Length", str(fs[6]))
          self.send_header("Last-Modified",
              self.date_time_string(fs.st_mtime))
          self.end_headers()
          return f
  \<close>
\<close>

definition send_head_file ::
  "env \<Rightarrow> handler \<Rightarrow> string \<Rightarrow> error + call list \<times> bytes option" where
  "send_head_file e s p =
     (let ctype = guess_type e p
      in if endswith p ''/'' then Inr (send_error e s 404 (Some ''File not found'') None, None)
         else (case fopen e p of
                 Raises_OSError \<Rightarrow> Inr (send_error e s 404 (Some ''File not found'') None, None)
               | Raises_ValueError \<Rightarrow> Inl ValueError
               | Opened f \<Rightarrow>
                   if (case if_modified_since s of
                         None \<Rightarrow> False
                       | Some ims \<Rightarrow> st_mtime f \<le> ims)
                   then Inr (send_response e 304 None @ [End_headers], None)
                   else Inr (send_response e 200 None @
                             [Send_header ''Content-type'' ctype,
                              Send_header ''Content-Length'' (str_nat (st_size f)),
                              Send_header ''Last-Modified'' (date_time_string e (st_mtime f)),
                              End_headers],
                             Some (content f))))"

text \<open>
  \<^verbatim>\<open>
  def send_head(self):
      path = self.translate_path(self.path)
      f = None
      if os.path.isdir(path):
          parts = urllib.parse.urlsplit(self.path)
          if not parts.path.endswith('/'):
              self.send_response(HTTPStatus.MOVED_PERMANENTLY)
              new_parts = (parts[0], parts[1], parts[2] + '/',
                           parts[3], parts[4])
              new_url = urllib.parse.urlunsplit(new_parts)
              self.send_header("Location", new_url)
              self.send_header("Content-Length", "0")
              self.end_headers()
              return None
          for index in "index.html", "index.htm":
              index = os.path.join(path, index)
              if os.path.isfile(index):
                  path = index
                  break
          else:
              return self.list_directory(path)
      ctype = self.guess_type(path)
      ...
  \<close>
\<close>

definition send_head :: "env \<Rightarrow> handler \<Rightarrow> error + call list \<times> bytes option" where
  "send_head e s =
     (let p = translate_path e s (path s)
      in if isdir e p
         then (if \<not> endswith (urlsplit_path e (path s)) ''/''
               then Inr (send_response e 301 None @
                         [Send_header ''Location'' (redirect_url e (path s)),
                          Send_header ''Content-Length'' ''0'',
                          End_headers],
                         None)
               else if isfile e (join p ''index.html'') then send_head_file e s (join p ''index.html'')
               else if isfile e (join p ''index.htm'') then send_head_file e s (join p ''index.htm'')
               else Inr (list_directory e s p))
         else send_head_file e s p)"

text \<open>
  \<^verbatim>\<open>copyfile\<close> is \<^verbatim>\<open>shutil.copyfileobj\<close>: it reads blocks of \<^verbatim>\<open>COPY_BUFSIZE\<close> (65536) bytes
  and writes each one, until a read returns nothing.
\<close>

function blocks :: "nat \<Rightarrow> bytes \<Rightarrow> bytes list" where
  "blocks n b = (if n = 0 \<or> b = [] then [] else take n b # blocks n (drop n b))"
  by pat_completeness auto
termination
  by (relation "measure (\<lambda>(n, b). length b)") auto

declare blocks.simps [simp del]

definition copyfile :: "bytes \<Rightarrow> call list" where
  "copyfile b = map Wfile_write (blocks 65536 b)"

text \<open>
  \<^verbatim>\<open>
  def do_GET(self):
      f = self.send_head()
      if f:
          try:
              self.copyfile(f, self.wfile)
          finally:
              f.close()

  def do_HEAD(self):
      f = self.send_head()
      if f:
          f.close()
  \<close>
\<close>

definition do_GET :: "env \<Rightarrow> handler \<Rightarrow> error + call list" where
  "do_GET e s =
     (case send_head e s of
        Inl x \<Rightarrow> Inl x
      | Inr (calls, None) \<Rightarrow> Inr calls
      | Inr (calls, Some b) \<Rightarrow> Inr (calls @ copyfile b))"

definition do_HEAD :: "env \<Rightarrow> handler \<Rightarrow> error + call list" where
  "do_HEAD e s =
     (case send_head e s of
        Inl x \<Rightarrow> Inl x
      | Inr (calls, f) \<Rightarrow> Inr calls)"

text \<open>
  \<^verbatim>\<open>handle_one_request\<close> once \<^verbatim>\<open>parse_request\<close> has returned true. The class has the
  methods \<^verbatim>\<open>do_GET\<close> and \<^verbatim>\<open>do_HEAD\<close> and no other whose name starts with \<^verbatim>\<open>do_\<close>.
  \<^verbatim>\<open>
      mname = 'do_' + self.command
      if not hasattr(self, mname):
          self.send_error(
              HTTPStatus.NOT_IMPLEMENTED,
              "Unsupported method (%r)" % self.command)
          return
      method = getattr(self, mname)
      method()
  \<close>
\<close>

definition handle_one_request :: "env \<Rightarrow> handler \<Rightarrow> error + call list" where
  "handle_one_request e s =
     (if command s = ''GET'' then do_GET e s
      else if command s = ''HEAD'' then do_HEAD e s
      else Inr (send_error e s 501
                  (Some (''Unsupported method ('' @ repr e (command s) @ '')'')) None))"

text \<open>The handler at work on one parsed request, in the two classes: the calls of the
  inherited code are run with the \<^verbatim>\<open>end_headers\<close> of the class; an exception of the inherited
  code is the exception of the whole.\<close>

definition SimpleHTTPRequestHandler_handle :: "env \<Rightarrow> handler \<Rightarrow> error + handler" where
  "SimpleHTTPRequestHandler_handle e s =
     (case handle_one_request e s of
        Inl x \<Rightarrow> Inl x
      | Inr calls \<Rightarrow> exec BaseHTTPRequestHandler_end_headers calls s)"

definition NoCacheHandler_handle :: "env \<Rightarrow> handler \<Rightarrow> error + handler" where
  "NoCacheHandler_handle e s =
     (case handle_one_request e s of
        Inl x \<Rightarrow> Inl x
      | Inr calls \<Rightarrow> exec NoCacheHandler_end_headers calls s)"

section \<open>The program\<close>

text \<open>
  \<^verbatim>\<open>
  os.chdir(os.path.dirname(os.path.abspath(__file__)))
  class NoCacheHandler(http.server.SimpleHTTPRequestHandler): ...
  print("Serving at http://localhost:9091 (no-cache)")
  http.server.HTTPServer(('', 9091), NoCacheHandler).serve_forever()
  \<close>
  The state of the process: its working directory, named by the path last given to
  \<^verbatim>\<open>os.chdir\<close> (there are no symbolic links here); what it has written to the stream
  \<^verbatim>\<open>sys.stdout\<close> (if that stream is block-buffered the bytes reach the file descriptor
  later, at the latest when the interpreter exits); the address its listening socket is bound
  to; the server object's shutdown flag; and for each connection it has served the byte
  strings written to it.
\<close>

record process =
  cwd :: string
  stdout :: string
  listening :: "(string \<times> nat) option"
  shutdown_request :: bool
  served :: "bytes list list"

text \<open>What the operating system allows at start-up: \<^verbatim>\<open>os.chdir\<close> and the socket's
  \<^verbatim>\<open>bind\<close> raise \<^verbatim>\<open>OSError\<close> where these are false.\<close>

record platform =
  can_chdir :: "string \<Rightarrow> bool"
  can_bind :: "string \<times> nat \<Rightarrow> bool"

datatype fault = OSError

text \<open>
  The statements before \<^verbatim>\<open>serve_forever\<close>, in order. \<open>file\<close> is \<^verbatim>\<open>__file__\<close>; the command
  line and the environment variables are arguments the program never looks at. An exception
  is not caught: the result is then the fault and the state the process was in.
  \<^verbatim>\<open>TCPServer.__init__\<close> binds the socket and starts listening; \<^verbatim>\<open>BaseServer.__init__\<close>
  clears the shutdown flag.
\<close>

definition startup ::
  "platform \<Rightarrow> string \<Rightarrow> string list \<Rightarrow> (string \<times> string) list \<Rightarrow> process
     \<Rightarrow> fault \<times> process + process" where
  "startup os file argv environ p =
     (let root = dirname (abspath (cwd p) file)
      in if \<not> can_chdir os root then Inl (OSError, p)
         else
           (let p1 = p\<lparr>cwd := root\<rparr>;
                p2 = p1\<lparr>stdout := stdout p1 @ ''Serving at http://localhost:9091 (no-cache)'' @ [CHR 0x0A]\<rparr>
            in if \<not> can_bind os ([], 9091) then Inl (OSError, p2)
               else Inr (p2\<lparr>listening := Some ([], 9091), shutdown_request := False\<rparr>)))"

text \<open>
  A request as \<^verbatim>\<open>parse_request\<close> delivers it, and the handler object
  \<^verbatim>\<open>finish_request\<close> creates for it: one new object for each connection, its
  \<^verbatim>\<open>directory\<close> the working directory of that moment.
\<close>

record request =
  rq_command :: string
  rq_path :: string
  rq_version :: string
  rq_if_modified_since :: "nat option"

definition new_handler :: "string \<Rightarrow> request \<Rightarrow> handler" where
  "new_handler d rq =
     \<lparr>command = rq_command rq, path = rq_path rq, request_version = rq_version rq,
      if_modified_since = rq_if_modified_since rq, directory = d,
      close_connection = True, headers_buffer = None, wfile = []\<rparr>"

text \<open>
  One connection: \<^verbatim>\<open>_handle_request_noblock\<close> runs the handler and catches any
  \<^verbatim>\<open>Exception\<close> it raises (\<^verbatim>\<open>handle_error\<close> logs it to \<^verbatim>\<open>sys.stderr\<close>), then closes the
  connection, to which nothing more is written. When \<^verbatim>\<open>open\<close> raised, nothing had been
  written; what a run of calls had written before an exception is not recorded.
\<close>

definition handle_request_noblock :: "env \<Rightarrow> request \<Rightarrow> process \<Rightarrow> process" where
  "handle_request_noblock e rq p =
     (let s = new_handler (cwd p) rq
      in case NoCacheHandler_handle e s of
           Inl x \<Rightarrow> p\<lparr>served := served p @ [[]]\<rparr>
         | Inr s' \<Rightarrow> p\<lparr>served := served p @ [wfile s']\<rparr>)"

text \<open>
  \<^verbatim>\<open>
  def serve_forever(self, poll_interval=0.5):
      ...
          while not self.__shutdown_request:
              ready = selector.select(poll_interval)
              if self.__shutdown_request:
                  break
              if ready:
                  self._handle_request_noblock()
              self.service_actions()
  \<close>
  \<open>select i\<close> is what the \<open>i\<close>-th \<^verbatim>\<open>select\<close> finds: nothing, or a connection with its
  request and the environment of that moment. The loop may not return: its result is
  \<open>None\<close> then.
\<close>

definition serve_step :: "(nat \<Rightarrow> (env \<times> request) option) \<Rightarrow> nat \<Rightarrow> process \<Rightarrow> process" where
  "serve_step select i p =
     (case select i of
        None \<Rightarrow> p
      | Some (e, rq) \<Rightarrow> handle_request_noblock e rq p)"

partial_function (option) serve_forever ::
  "(nat \<Rightarrow> (env \<times> request) option) \<Rightarrow> nat \<Rightarrow> process \<Rightarrow> process option" where
  "serve_forever select i p =
     (if shutdown_request p then Some p
      else serve_forever select (Suc i) (serve_step select i p))"

text \<open>The state of the process after \<open>n\<close> more rounds of the loop.\<close>

fun rounds :: "(nat \<Rightarrow> (env \<times> request) option) \<Rightarrow> nat \<Rightarrow> nat \<Rightarrow> process \<Rightarrow> process" where
  "rounds select i 0 p = p"
| "rounds select i (Suc n) p = rounds select (Suc i) n (serve_step select i p)"

text \<open>All the bytes a run has sent to the client, in order; nothing is known after an
  exception.\<close>

definition sent :: "error + handler \<Rightarrow> bytes" where
  "sent r = (case r of Inl x \<Rightarrow> [] | Inr s \<Rightarrow> concat (wfile s))"

text \<open>The byte strings written to one connection that is served by a new
  \<^verbatim>\<open>NoCacheHandler\<close> in the working directory \<open>d\<close>.\<close>

definition answer :: "env \<Rightarrow> string \<Rightarrow> request \<Rightarrow> bytes list" where
  "answer e d rq =
     (case NoCacheHandler_handle e (new_handler d rq) of
        Inl x \<Rightarrow> []
      | Inr s \<Rightarrow> wfile s)"

text \<open>A call with the value of a \<^verbatim>\<open>Date\<close> header blanked: two lists of calls that agree
  after \<open>map undate\<close> differ in the values of their \<^verbatim>\<open>Date\<close> headers at most.\<close>

fun undate :: "call \<Rightarrow> call" where
  "undate (Send_header keyword v) =
     (if keyword = ''Date'' then Send_header keyword [] else Send_header keyword v)"
| "undate c = c"

section \<open>An example installation\<close>

text \<open>
  The program installed in \<^verbatim>\<open>/srv/chess-game\<close>, with one more file next to it,
  \<^verbatim>\<open>hello.txt\<close>, of five bytes; opening any other path fails, with \<^verbatim>\<open>ValueError\<close> when
  the path has a null character in it and with \<^verbatim>\<open>OSError\<close> otherwise. The library answers
  are those of CPython 3.11 on the inputs the examples reach.
\<close>

definition example_date :: "nat \<Rightarrow> string" where
  "example_date t =
     (if t = 1762000000 then ''Sat, 01 Nov 2025 12:26:40 GMT''
      else if t = 1762181400 then ''Mon, 03 Nov 2025 14:50:00 GMT''
      else if t = 1762181401 then ''Mon, 03 Nov 2025 14:50:01 GMT''
      else ''Thu, 01 Jan 1970 00:00:00 GMT'')"

definition example_isdir :: "string \<Rightarrow> bool" where
  "example_isdir p \<longleftrightarrow> p = ''/srv/chess-game'' \<or> p = ''/srv/chess-game/''"

definition example_isfile :: "string \<Rightarrow> bool" where
  "example_isfile p \<longleftrightarrow> p = ''/srv/chess-game/hello.txt'' \<or> p = ''/srv/chess-game/serve.py''"

definition example_fopen :: "string \<Rightarrow> opened" where
  "example_fopen p =
     (if p = ''/srv/chess-game/hello.txt''
      then Opened \<lparr>content = ''hello'', st_size = 5, st_mtime = 1762000000\<rparr>
      else if CHR 0x00 \<in> set p then Raises_ValueError
      else Raises_OSError)"

definition example_listdir_page :: "string \<Rightarrow> string \<Rightarrow> bytes option" where
  "example_listdir_page p q = None"

definition example_urlsplit_path :: "string \<Rightarrow> string" where
  "example_urlsplit_path p = takeWhile (\<lambda>c. c \<noteq> CHR ''?'' \<and> c \<noteq> CHR ''#'') p"

definition example_redirect_url :: "string \<Rightarrow> string" where
  "example_redirect_url p =
     example_urlsplit_path p @ ''/'' @ drop (length (example_urlsplit_path p)) p"

definition example_guess_type :: "string \<Rightarrow> string" where
  "example_guess_type p =
     (if endswith p ''.txt'' then ''text/plain'' else ''application/octet-stream'')"

definition example_error_page :: "nat \<Rightarrow> string \<Rightarrow> string \<Rightarrow> bytes" where
  "example_error_page code message explain =
     concat (map (\<lambda>l. l @ [CHR 0x0A])
       [''<!DOCTYPE HTML>'',
        ''<html lang='' @ [CHR 0x22] @ ''en'' @ [CHR 0x22] @ ''>'',
        ''    <head>'',
        ''        <meta charset='' @ [CHR 0x22] @ ''utf-8'' @ [CHR 0x22] @ ''>'',
        ''        <title>Error response</title>'',
        ''    </head>'',
        ''    <body>'',
        ''        <h1>Error response</h1>'',
        ''        <p>Error code: '' @ str_nat code @ ''</p>'',
        ''        <p>Message: '' @ message @ ''.</p>'',
        ''        <p>Error code explanation: '' @ str_nat code @ '' - '' @ explain @ ''.</p>'',
        ''    </body>'',
        ''</html>''])"

definition example_repr :: "string \<Rightarrow> string" where
  "example_repr x = [CHR 0x27] @ x @ [CHR 0x27]"

text \<open>The one example path with an escape is \<^verbatim>\<open>/hello.txt%00.png\<close>, whose \<^verbatim>\<open>%00\<close> decodes
  to the null character.\<close>

definition example_unquote_escapes :: "string \<Rightarrow> string" where
  "example_unquote_escapes p =
     (if p = ''/hello.txt%00.png'' then ''/hello.txt'' @ [CHR 0x00] @ ''.png'' else p)"

text \<open>The environment at the instant \<open>t\<close>. No example lists a directory, so
  \<open>listdir_page\<close> is never consulted.\<close>

definition example_env :: "nat \<Rightarrow> env" where
  "example_env t =
     \<lparr>version_string = ''SimpleHTTP/0.6 Python/3.11.10'',
      clock = t,
      date_time_string = example_date,
      isdir = example_isdir,
      isfile = example_isfile,
      fopen = example_fopen,
      listdir_page = example_listdir_page,
      filesystemencoding = ''utf-8'',
      unquote_escapes = example_unquote_escapes,
      urlsplit_path = example_urlsplit_path,
      redirect_url = example_redirect_url,
      guess_type = example_guess_type,
      error_page = example_error_page,
      repr = example_repr\<rparr>"

text \<open>A request without an \<^verbatim>\<open>If-Modified-Since\<close> header, and its handler.\<close>

definition example_request :: "string \<Rightarrow> string \<Rightarrow> string \<Rightarrow> request" where
  "example_request c p v =
     \<lparr>rq_command = c, rq_path = p, rq_version = v, rq_if_modified_since = None\<rparr>"

definition example_handler :: "string \<Rightarrow> string \<Rightarrow> string \<Rightarrow> handler" where
  "example_handler c p v = new_handler ''/srv/chess-game'' (example_request c p v)"

text \<open>A system on which the program starts, and one on which port 9091 is taken; the
  process as the interpreter starts it in \<^verbatim>\<open>/home/dev\<close>.\<close>

definition example_can_chdir :: "string \<Rightarrow> bool" where
  "example_can_chdir d \<longleftrightarrow> d = ''/srv/chess-game''"

definition example_can_bind :: "string \<times> nat \<Rightarrow> bool" where
  "example_can_bind a \<longleftrightarrow> True"

definition example_port_taken :: "string \<times> nat \<Rightarrow> bool" where
  "example_port_taken a \<longleftrightarrow> False"

definition example_platform :: platform where
  "example_platform = \<lparr>can_chdir = example_can_chdir, can_bind = example_can_bind\<rparr>"

definition example_platform_port_taken :: platform where
  "example_platform_port_taken =
     \<lparr>can_chdir = example_can_chdir, can_bind = example_port_taken\<rparr>"

definition example_process :: process where
  "example_process =
     \<lparr>cwd = ''/home/dev'', stdout = [], listening = None, shutdown_request = False,
      served = []\<rparr>"

text \<open>The same process once it has started and listens.\<close>

definition example_server :: process where
  "example_server =
     \<lparr>cwd = ''/srv/chess-game'',
      stdout = ''Serving at http://localhost:9091 (no-cache)'' @ [CHR 0x0A],
      listening = Some ([], 9091), shutdown_request = False, served = []\<rparr>"

text \<open>Connections that keep arriving: the \<open>i\<close>-th round of the loop finds a
  \<^verbatim>\<open>GET /hello.txt HTTP/1.1\<close> at the instant \<open>1762181400 + i\<close>.\<close>

definition example_select :: "nat \<Rightarrow> (env \<times> request) option" where
  "example_select i =
     Some (example_env (1762181400 + i), example_request ''GET'' ''/hello.txt'' ''HTTP/1.1'')"

section \<open>Facts about the header primitives and about runs of calls\<close>

lemma length_lower [simp]: "length (lower k) = length k"
  by (simp add: lower_def)

lemma send_header_not_connection:
  "length keyword \<noteq> 10 \<Longrightarrow>
   send_header keyword value s =
     (if request_version s \<noteq> ''HTTP/0.9''
      then s\<lparr>headers_buffer := Some (buffered s @ [header_line keyword value])\<rparr>
      else s)"
proof -
  assume len: "length keyword \<noteq> 10"
  have "lower keyword \<noteq> ''connection''"
  proof
    assume "lower keyword = ''connection''"
    then have "length (lower keyword) = length ''connection''" by simp
    with len show False by simp
  qed
  then show ?thesis by (simp add: send_header_def Let_def)
qed

lemma NoCacheHandler_end_headers_old:
  "request_version s = ''HTTP/0.9'' \<Longrightarrow> NoCacheHandler_end_headers s = Inr s"
  by (simp add: NoCacheHandler_end_headers_def send_header_not_connection
      BaseHTTPRequestHandler_end_headers_def Let_def)

lemma NoCacheHandler_end_headers_new:
  "request_version s \<noteq> ''HTTP/0.9'' \<Longrightarrow>
   NoCacheHandler_end_headers s =
     Inr (s\<lparr>wfile := wfile s @ [concat (buffered s @ no_cache_lines @ [CRLF])],
            headers_buffer := Some []\<rparr>)"
  by (simp add: NoCacheHandler_end_headers_def send_header_not_connection
      BaseHTTPRequestHandler_end_headers_def flush_headers_def buffered_def
      no_cache_lines_def Let_def)

lemma exec1_request_version:
  "exec1 NoCacheHandler_end_headers c s = Inr s' \<Longrightarrow> request_version s' = request_version s"
  by (cases c; cases "request_version s = ''HTTP/0.9''")
     (auto simp: send_response_only_def send_header_def Let_def
       NoCacheHandler_end_headers_old NoCacheHandler_end_headers_new)

lemma exec1_NoCacheHandler_total:
  "\<exists>s'. exec1 NoCacheHandler_end_headers c s = Inr s'"
  by (cases c; cases "request_version s = ''HTTP/0.9''")
     (auto simp: NoCacheHandler_end_headers_old NoCacheHandler_end_headers_new)

lemma exec1_NoCacheHandler_wfile:
  assumes "request_version s \<noteq> ''HTTP/0.9''"
    and "exec1 NoCacheHandler_end_headers c s = Inr s'"
  shows "wfile s' = wfile s
       \<or> (\<exists>b. c = Wfile_write b \<and> wfile s' = wfile s @ [b])
       \<or> (c = End_headers \<and> wfile s' = wfile s @ [concat (buffered s @ no_cache_lines @ [CRLF])])"
  using assms
  by (cases c)
     (auto simp: send_response_only_def send_header_def Let_def NoCacheHandler_end_headers_new)

lemma exec_NoCacheHandler_blocks:
  "request_version s \<noteq> ''HTTP/0.9'' \<Longrightarrow>
   \<exists>s' new. exec NoCacheHandler_end_headers p s = Inr s' \<and> wfile s' = wfile s @ new \<and>
     (\<forall>c \<in> set new. c \<in> set (bodies p) \<or> (\<exists>h. c = concat (h @ no_cache_lines @ [CRLF])))"
proof (induction p arbitrary: s)
  case Nil
  then show ?case by simp
next
  case (Cons c cs)
  obtain s1 where s1: "exec1 NoCacheHandler_end_headers c s = Inr s1"
    using exec1_NoCacheHandler_total by blast
  have v1: "request_version s1 \<noteq> ''HTTP/0.9''"
    using exec1_request_version [OF s1] Cons.prems by simp
  from Cons.IH [OF v1] obtain s' new where
    run: "exec NoCacheHandler_end_headers cs s1 = Inr s'" and
    out: "wfile s' = wfile s1 @ new" and
    blocks: "\<forall>c \<in> set new. c \<in> set (bodies cs) \<or> (\<exists>h. c = concat (h @ no_cache_lines @ [CRLF]))"
    by blast
  have sub: "set (bodies cs) \<subseteq> set (bodies (c # cs))"
    by (cases c) auto
  from exec1_NoCacheHandler_wfile [OF Cons.prems s1]
  consider (quiet) "wfile s1 = wfile s"
    | (body) b where "c = Wfile_write b" "wfile s1 = wfile s @ [b]"
    | (block) "c = End_headers" "wfile s1 = wfile s @ [concat (buffered s @ no_cache_lines @ [CRLF])]"
    by blast
  then show ?case
  proof cases
    case quiet
    with s1 run out blocks sub show ?thesis by (intro exI [of _ s'] exI [of _ new]) auto
  next
    case body
    with s1 run out blocks sub show ?thesis
      by (intro exI [of _ s'] exI [of _ "b # new"]) auto
  next
    case block
    with s1 run out blocks sub show ?thesis
      by (intro exI [of _ s'] exI [of _ "concat (buffered s @ no_cache_lines @ [CRLF]) # new"]) auto
  qed
qed

lemma exec1_End_headers_inject:
  "exec1 NoCacheHandler_end_headers End_headers s =
   exec BaseHTTPRequestHandler_end_headers
     [Send_header ''Cache-Control'' ''no-store, no-cache, must-revalidate, max-age=0'',
      Send_header ''Pragma'' ''no-cache'',
      Send_header ''Expires'' ''0'',
      End_headers] s"
  by (simp add: NoCacheHandler_end_headers_def Let_def split: sum.splits)

lemma exec_append:
  "exec eh (p @ q) s = (case exec eh p s of Inl e \<Rightarrow> Inl e | Inr s' \<Rightarrow> exec eh q s')"
  by (induction p arbitrary: s) (simp_all split: sum.splits)

lemma exec_inject:
  "exec NoCacheHandler_end_headers p s = exec BaseHTTPRequestHandler_end_headers (inject p) s"
proof (induction p arbitrary: s)
  case Nil
  show ?case by simp
next
  case (Cons c cs)
  show ?case
  proof (cases c)
    case End_headers
    have "inject (c # cs) =
        [Send_header ''Cache-Control'' ''no-store, no-cache, must-revalidate, max-age=0'',
         Send_header ''Pragma'' ''no-cache'',
         Send_header ''Expires'' ''0'',
         End_headers] @ inject cs"
      by (simp add: End_headers)
    then have rhs: "exec BaseHTTPRequestHandler_end_headers (inject (c # cs)) s =
        (case exec1 NoCacheHandler_end_headers End_headers s of
           Inl e \<Rightarrow> Inl e
         | Inr s' \<Rightarrow> exec BaseHTTPRequestHandler_end_headers (inject cs) s')"
      by (simp only: exec_append exec1_End_headers_inject)
    have lhs: "exec NoCacheHandler_end_headers (c # cs) s =
        (case exec1 NoCacheHandler_end_headers End_headers s of
           Inl e \<Rightarrow> Inl e
         | Inr s' \<Rightarrow> exec BaseHTTPRequestHandler_end_headers (inject cs) s')"
      by (simp add: End_headers Cons.IH split: sum.splits)
    show ?thesis
      by (simp only: lhs rhs)
  qed (simp_all add: Cons.IH)
qed

lemma statuses_inject: "statuses (inject p) = statuses p"
  by (induction p rule: inject.induct) simp_all

lemma bodies_inject: "bodies (inject p) = bodies p"
  by (induction p rule: inject.induct) simp_all

lemma same_or_injected_refl: "same_or_injected b b"
  by (simp add: same_or_injected_def)

lemma same_but_wfile_eq: "same_but_wfile sb sn \<Longrightarrow> sn = sb\<lparr>wfile := wfile sn\<rparr>"
  by (simp add: same_but_wfile_def)

lemma same_but_wfile_update [simp]: "same_but_wfile sb (sb\<lparr>wfile := w\<rparr>)"
  by (simp add: same_but_wfile_def)

lemma send_response_only_wfile:
  "send_response_only code message (s\<lparr>wfile := w\<rparr>) = (send_response_only code message s)\<lparr>wfile := w\<rparr>"
  by (simp add: send_response_only_def buffered_def Let_def split: option.splits)

lemma send_header_wfile:
  "send_header keyword value (s\<lparr>wfile := w\<rparr>) = (send_header keyword value s)\<lparr>wfile := w\<rparr>"
  by (simp add: send_header_def buffered_def Let_def)

lemma wfile_send_response_only [simp]: "wfile (send_response_only code message s) = wfile s"
  by (simp add: send_response_only_def Let_def)

lemma wfile_send_header [simp]: "wfile (send_header keyword value s) = wfile s"
  by (simp add: send_header_def Let_def)

lemma exec1_frame:
  assumes same: "same_but_wfile sb sn"
    and rel: "list_all2 same_or_injected (wfile sb) (wfile sn)"
    and base: "exec1 BaseHTTPRequestHandler_end_headers c sb = Inr sb'"
  shows "\<exists>sn'. exec1 NoCacheHandler_end_headers c sn = Inr sn' \<and> same_but_wfile sb' sn' \<and>
           list_all2 same_or_injected (wfile sb') (wfile sn')"
proof -
  define w where "w = wfile sn"
  have sn: "sn = sb\<lparr>wfile := w\<rparr>"
    using same_but_wfile_eq [OF same] by (simp add: w_def)
  have relw: "list_all2 same_or_injected (wfile sb) w"
    using rel by (simp add: w_def)
  show ?thesis
  proof (cases c)
    case (Send_response_only code message)
    with base relw show ?thesis
      by (auto simp: sn send_response_only_wfile)
  next
    case (Send_header k v)
    with base relw show ?thesis
      by (auto simp: sn send_header_wfile)
  next
    case (Wfile_write b)
    from relw have "list_all2 same_or_injected (wfile sb @ [b]) (w @ [b])"
      by (intro list_all2_appendI) (simp_all add: same_or_injected_refl)
    with base Wfile_write show ?thesis
      by (auto simp: sn same_but_wfile_def)
  next
    case End_headers
    show ?thesis
    proof (cases "request_version sb = ''HTTP/0.9''")
      case True
      with base relw End_headers show ?thesis
        by (auto simp: sn NoCacheHandler_end_headers_old BaseHTTPRequestHandler_end_headers_def)
    next
      case False
      with base End_headers obtain b where b: "headers_buffer sb = Some b"
        and sb': "sb' = sb\<lparr>wfile := wfile sb @ [concat (b @ [CRLF])], headers_buffer := Some []\<rparr>"
        by (auto simp: BaseHTTPRequestHandler_end_headers_def flush_headers_def
            split: option.splits)
      from False have v: "request_version sn \<noteq> ''HTTP/0.9''"
        by (simp add: sn)
      from b have bn: "buffered sn = b"
        by (simp add: sn buffered_def)
      have "same_or_injected (concat (b @ [CRLF])) (concat (b @ no_cache_lines @ [CRLF]))"
        unfolding same_or_injected_def by blast
      with relw have "list_all2 same_or_injected (wfile sb @ [concat (b @ [CRLF])])
          (w @ [concat (b @ no_cache_lines @ [CRLF])])"
        by (intro list_all2_appendI) simp_all
      with End_headers sb' bn show ?thesis
        by (simp add: NoCacheHandler_end_headers_new [OF v] same_but_wfile_def) (simp add: sn)
    qed
  qed
qed

lemma exec_frame:
  "same_but_wfile sb sn \<Longrightarrow> list_all2 same_or_injected (wfile sb) (wfile sn) \<Longrightarrow>
   exec BaseHTTPRequestHandler_end_headers p sb = Inr sb' \<Longrightarrow>
   \<exists>sn'. exec NoCacheHandler_end_headers p sn = Inr sn' \<and> same_but_wfile sb' sn' \<and>
     list_all2 same_or_injected (wfile sb') (wfile sn')"
proof (induction p arbitrary: sb sn)
  case Nil
  then show ?case by simp
next
  case (Cons c cs)
  from Cons.prems(3) obtain sb1 where
    b1: "exec1 BaseHTTPRequestHandler_end_headers c sb = Inr sb1" and
    b2: "exec BaseHTTPRequestHandler_end_headers cs sb1 = Inr sb'"
    by (auto split: sum.splits)
  from exec1_frame [OF Cons.prems(1,2) b1] obtain sn1 where
    n1: "exec1 NoCacheHandler_end_headers c sn = Inr sn1" and
    r1: "same_but_wfile sb1 sn1" "list_all2 same_or_injected (wfile sb1) (wfile sn1)"
    by blast
  from Cons.IH [OF r1 b2] n1 show ?case by simp
qed

section \<open>Facts about the serve loop\<close>

lemma handle_request_noblock_frame:
  "handle_request_noblock e rq p = p\<lparr>served := served (handle_request_noblock e rq p)\<rparr>"
  by (simp add: handle_request_noblock_def Let_def split: sum.splits)

lemma serve_step_frame:
  "serve_step select i p = p\<lparr>served := served (serve_step select i p)\<rparr>"
proof (cases "select i")
  case None
  then show ?thesis by (simp add: serve_step_def)
next
  case (Some c)
  obtain e rq where "c = (e, rq)" by (cases c)
  with Some have "serve_step select i p = handle_request_noblock e rq p"
    by (simp add: serve_step_def)
  then show ?thesis
    using handle_request_noblock_frame [of e rq p] by simp
qed

lemma rounds_frame:
  "rounds select i n p = p\<lparr>served := served (rounds select i n p)\<rparr>"
proof (induction n arbitrary: i p)
  case 0
  show ?case by simp
next
  case (Suc n)
  have "rounds select (Suc i) n (serve_step select i p) =
      (serve_step select i p)\<lparr>served := served (rounds select (Suc i) n (serve_step select i p))\<rparr>"
    by (rule Suc.IH)
  also have "\<dots> = p\<lparr>served := served (rounds select (Suc i) n (serve_step select i p))\<rparr>"
    by (subst serve_step_frame) simp
  finally show ?case by simp
qed

lemma rounds_fields:
  "cwd (rounds select i n p) = cwd p"
  "stdout (rounds select i n p) = stdout p"
  "listening (rounds select i n p) = listening p"
  "shutdown_request (rounds select i n p) = shutdown_request p"
  by (subst rounds_frame, simp)+

lemma serve_forever_returns:
  assumes "serve_forever select i p = Some y"
  shows "\<exists>n. shutdown_request (rounds select i n p)"
proof (rule serve_forever.raw_induct
    [where P = "\<lambda>select i p y. \<exists>n. shutdown_request (rounds select i n p)", OF _ assms])
  fix serve :: "(nat \<Rightarrow> (env \<times> request) option) \<Rightarrow> nat \<Rightarrow> process \<Rightarrow> process option"
    and select i p y
  assume IH: "\<And>select i p y. serve select i p = Some y \<Longrightarrow>
      \<exists>n. shutdown_request (rounds select i n p)"
    and body: "(if shutdown_request p then Some p
      else serve select (Suc i) (serve_step select i p)) = Some y"
  show "\<exists>n. shutdown_request (rounds select i n p)"
  proof (cases "shutdown_request p")
    case True
    then have "shutdown_request (rounds select i 0 p)" by simp
    then show ?thesis by blast
  next
    case False
    with body have "serve select (Suc i) (serve_step select i p) = Some y" by simp
    from IH [OF this] obtain n where
      "shutdown_request (rounds select (Suc i) n (serve_step select i p))" by blast
    then have "shutdown_request (rounds select i (Suc n) p)" by simp
    then show ?thesis by blast
  qed
qed

lemma serve_forever_never_returns:
  "\<not> shutdown_request p \<Longrightarrow> serve_forever select i p = None"
proof (rule ccontr)
  assume run: "\<not> shutdown_request p" and "serve_forever select i p \<noteq> None"
  then obtain y where "serve_forever select i p = Some y" by blast
  from serve_forever_returns [OF this] run show False
    by (simp add: rounds_fields)
qed

lemma startup_Inr:
  "startup os file argv environ p0 = Inr p \<Longrightarrow>
   can_chdir os (dirname (abspath (cwd p0) file)) \<and> can_bind os ([], 9091) \<and>
   p = p0\<lparr>cwd := dirname (abspath (cwd p0) file),
          stdout := stdout p0 @ ''Serving at http://localhost:9091 (no-cache)'' @ [CHR 0x0A],
          listening := Some ([], 9091), shutdown_request := False\<rparr>"
  by (auto simp: startup_def Let_def split: if_splits)

section \<open>Facts about the inherited request handling\<close>









lemma str_split_no_sep: "w \<in> set (str_split sep p) \<Longrightarrow> sep \<notin> set w"
proof (induction p arbitrary: w)
  case Nil
  then show ?case by simp
next
  case (Cons c cs)
  show ?case
  proof (cases "c = sep")
    case True
    with Cons show ?thesis by auto
  next
    case False
    show ?thesis
    proof (cases "str_split sep cs")
      case Nil
      with False Cons.prems show ?thesis by simp
    next
      case (Cons v vs)
      with False Cons.prems have "w = c # v \<or> w \<in> set vs" by simp
      moreover have "sep \<notin> set v" "\<And>u. u \<in> set vs \<Longrightarrow> sep \<notin> set u"
        using Cons.IH Cons by simp_all
      ultimately show ?thesis using False by auto
    qed
  qed
qed

lemma translate_words_foldl:
  "translate_words d ws =
     foldl join d (filter (\<lambda>w. \<not> (dirname w \<noteq> [] \<or> w = ''.'' \<or> w = ''..'')) ws)"
  by (induction ws arbitrary: d) simp_all

lemma join_simple:
  assumes "d \<noteq> []" "\<not> endswith d ''/''" "w \<noteq> []" "CHR ''/'' \<notin> set w"
  shows "join d w = d @ ''/'' @ w"
proof -
  from assms(3,4) have "\<not> startswith w ''/''"
    by (cases w) (auto simp: startswith_def)
  with assms(1,2) show ?thesis by (simp add: join_def)
qed

lemma endswith_slash: "endswith p ''/'' \<longleftrightarrow> p \<noteq> [] \<and> last p = CHR ''/''"
proof (cases p rule: rev_cases)
  case Nil
  then show ?thesis by (simp add: endswith_def)
next
  case (snoc xs x)
  then show ?thesis by (auto simp: endswith_def)
qed

lemma foldl_join_simple:
  assumes "d \<noteq> []" "\<not> endswith d ''/''"
    and "\<forall>w \<in> set ws. w \<noteq> [] \<and> CHR ''/'' \<notin> set w"
  shows "foldl join d ws = d @ concat (map (\<lambda>w. ''/'' @ w) ws)"
  using assms
proof (induction ws arbitrary: d)
  case Nil
  show ?case by simp
next
  case (Cons w ws)
  from Cons.prems have w: "w \<noteq> []" "CHR ''/'' \<notin> set w" by simp_all
  have j: "join d w = d @ ''/'' @ w"
    using Cons.prems(1,2) w by (rule join_simple)
  have "last (d @ ''/'' @ w) = last w" using w by simp
  moreover have "last w \<noteq> CHR ''/''" using w by (metis last_in_set)
  ultimately have e: "\<not> endswith (d @ ''/'' @ w) ''/''"
    by (simp add: endswith_slash)
  have "foldl join (d @ ''/'' @ w) ws = (d @ ''/'' @ w) @ concat (map (\<lambda>w. ''/'' @ w) ws)"
    using Cons.prems(3) e by (intro Cons.IH) simp_all
  with j show ?case by simp
qed

lemma translate_path_words:
  "\<exists>ws. (\<forall>w \<in> set ws. w \<noteq> [] \<and> w \<noteq> ''.'' \<and> w \<noteq> ''..'' \<and> CHR ''/'' \<notin> set w) \<and>
        (translate_path e s p = foldl join (directory s) ws \<or>
         translate_path e s p = foldl join (directory s) ws @ ''/'')"
proof -
  define raw where "raw = str_split CHR ''/''
    (normpath (unquote e (takeWhile (\<lambda>c. c \<noteq> CHR ''#'') (takeWhile (\<lambda>c. c \<noteq> CHR ''?'') p))))"
  define ws where "ws = filter (\<lambda>w. \<not> (dirname w \<noteq> [] \<or> w = ''.'' \<or> w = ''..''))
    (filter (\<lambda>w. w \<noteq> []) raw)"
  have "\<forall>w \<in> set ws. w \<noteq> [] \<and> w \<noteq> ''.'' \<and> w \<noteq> ''..'' \<and> CHR ''/'' \<notin> set w"
    using str_split_no_sep [of _ "CHR ''/''"] by (auto simp: ws_def raw_def)
  moreover have "translate_path e s p = foldl join (directory s) ws \<or>
      translate_path e s p = foldl join (directory s) ws @ ''/''"
    by (simp add: translate_path_def translate_words_foldl ws_def raw_def Let_def)
  ultimately show ?thesis by blast
qed

lemma undate_send_response:
  "map undate (send_response (e\<lparr>clock := t\<rparr>) code m) = map undate (send_response e code m)"
  by (simp add: send_response_def)

lemma send_error_clock:
  "map undate (send_error (e\<lparr>clock := t\<rparr>) s code m x) = map undate (send_error e s code m x)"
  by (simp add: send_error_def send_response_def Let_def split: prod.splits option.splits)

lemma unquote_clock: "unquote (e\<lparr>clock := t\<rparr>) p = unquote e p"
  by (cases "CHR ''%'' \<in> set p") (simp_all add: unquote_def)

lemma translate_path_clock: "translate_path (e\<lparr>clock := t\<rparr>) s p = translate_path e s p"
  by (simp add: translate_path_def unquote_clock)

lemma send_head_file_clock:
  "map_sum id (map_prod (map undate) id) (send_head_file (e\<lparr>clock := t\<rparr>) s p) =
   map_sum id (map_prod (map undate) id) (send_head_file e s p)"
  by (simp add: send_head_file_def send_error_clock send_response_def Let_def
      split: opened.splits)

lemma list_directory_clock:
  "map_prod (map undate) id (list_directory (e\<lparr>clock := t\<rparr>) s p) =
   map_prod (map undate) id (list_directory e s p)"
  by (simp add: list_directory_def send_error_clock send_response_def split: option.splits)

lemma send_head_clock:
  "map_sum id (map_prod (map undate) id) (send_head (e\<lparr>clock := t\<rparr>) s) =
   map_sum id (map_prod (map undate) id) (send_head e s)"
  by (simp add: send_head_def translate_path_clock send_head_file_clock list_directory_clock
      send_response_def Let_def)

lemma undate_Wfile_write: "map undate (map Wfile_write bs) = map Wfile_write bs"
  by (induction bs) simp_all

lemma do_GET_clock:
  "map_sum id (map undate) (do_GET (e\<lparr>clock := t\<rparr>) s) = map_sum id (map undate) (do_GET e s)"
  using send_head_clock [where e = e and t = t and s = s]
  by (auto simp: do_GET_def copyfile_def undate_Wfile_write split: sum.splits option.splits)

lemma do_HEAD_clock:
  "map_sum id (map undate) (do_HEAD (e\<lparr>clock := t\<rparr>) s) = map_sum id (map undate) (do_HEAD e s)"
  using send_head_clock [where e = e and t = t and s = s]
  by (auto simp: do_HEAD_def split: sum.splits)

lemma handle_one_request_clock:
  "map_sum id (map undate) (handle_one_request (e\<lparr>clock := t\<rparr>) s) =
   map_sum id (map undate) (handle_one_request e s)"
  by (simp add: handle_one_request_def do_GET_clock do_HEAD_clock send_error_clock)

lemma bodies_undate: "bodies (map undate p) = bodies p"
  by (induction p rule: bodies.induct) simp_all

lemma statuses_undate: "statuses (map undate p) = statuses p"
  by (induction p rule: statuses.induct) simp_all

lemma startswith_slash: "startswith p ''/'' \<longleftrightarrow> p \<noteq> [] \<and> hd p = CHR ''/''"
  by (cases p) (simp_all add: startswith_def)

lemma join_absolute: "startswith a ''/'' \<Longrightarrow> startswith (join a b) ''/''"
  by (cases a) (simp_all add: join_def startswith_slash)

lemma normpath_absolute: "startswith p ''/'' \<Longrightarrow> startswith (normpath p) ''/''"
  by (simp add: normpath_def Let_def startswith_slash)

lemma abspath_absolute: "startswith d ''/'' \<Longrightarrow> startswith (abspath d p) ''/''"
  by (simp add: abspath_def normpath_absolute join_absolute)

lemma strip_right: "xs = rev (dropWhile P (rev xs)) @ rev (takeWhile P (rev xs))"
proof -
  have "rev (takeWhile P (rev xs) @ dropWhile P (rev xs)) = rev (rev xs)"
    by (simp only: takeWhile_dropWhile_id)
  then show ?thesis by (simp only: rev_append rev_rev_ident)
qed

lemma dirname_head:
  "dirname p =
     (if rev (dropWhile (\<lambda>c. c \<noteq> CHR ''/'') (rev p)) \<noteq> [] \<and>
         rev (dropWhile (\<lambda>c. c \<noteq> CHR ''/'') (rev p)) \<noteq>
           replicate (length (rev (dropWhile (\<lambda>c. c \<noteq> CHR ''/'') (rev p)))) CHR ''/''
      then rev (dropWhile (\<lambda>c. c = CHR ''/'')
             (rev (rev (dropWhile (\<lambda>c. c \<noteq> CHR ''/'') (rev p)))))
      else rev (dropWhile (\<lambda>c. c \<noteq> CHR ''/'') (rev p)))"
  by (simp only: dirname_def Let_def)

lemma dirname_split:
  "\<exists>k name. CHR ''/'' \<notin> set name \<and> p = dirname p @ replicate k CHR ''/'' @ name"
proof -
  define name where "name = rev (takeWhile (\<lambda>c. c \<noteq> CHR ''/'') (rev p))"
  define head where "head = rev (dropWhile (\<lambda>c. c \<noteq> CHR ''/'') (rev p))"
  define slashes where "slashes = rev (takeWhile (\<lambda>c. c = CHR ''/'') (rev head))"
  have n: "CHR ''/'' \<notin> set name"
    unfolding name_def using set_takeWhileD [of "CHR ''/''" "\<lambda>c. c \<noteq> CHR ''/''" "rev p"] by auto
  have p: "p = head @ name"
    unfolding head_def name_def by (rule strip_right)
  have "\<forall>c \<in> set slashes. c = CHR ''/''"
    unfolding slashes_def using set_takeWhileD [of _ "\<lambda>c. c = CHR ''/''" "rev head"] by auto
  then have s: "slashes = replicate (length slashes) CHR ''/''"
    by (simp add: replicate_length_same)
  have h: "head = rev (dropWhile (\<lambda>c. c = CHR ''/'') (rev head)) @ slashes"
    unfolding slashes_def by (rule strip_right)
  show ?thesis
  proof (cases "head \<noteq> [] \<and> head \<noteq> replicate (length head) CHR ''/''")
    case True
    then have "dirname p = rev (dropWhile (\<lambda>c. c = CHR ''/'') (rev head))"
      unfolding dirname_head head_def by (rule if_P)
    with h p have "p = dirname p @ slashes @ name" by simp
    with s have "p = dirname p @ replicate (length slashes) CHR ''/'' @ name" by simp
    with n show ?thesis by blast
  next
    case False
    then have "dirname p = head"
      unfolding dirname_head head_def by (rule if_not_P)
    with p have "p = dirname p @ replicate 0 CHR ''/'' @ name" by simp
    with n show ?thesis by blast
  qed
qed

lemma dirname_absolute:
  assumes "startswith p ''/''"
  shows "startswith (dirname p) ''/''"
proof -
  define head where "head = rev (dropWhile (\<lambda>c. c \<noteq> CHR ''/'') (rev p))"
  from assms have p: "p \<noteq> []" "hd p = CHR ''/''" by (simp_all add: startswith_slash)
  then have "CHR ''/'' \<in> set (rev p)" by (cases p) simp_all
  then have hn: "head \<noteq> []"
    by (auto simp: head_def dropWhile_eq_Nil_conv)
  have "p = head @ rev (takeWhile (\<lambda>c. c \<noteq> CHR ''/'') (rev p))"
    unfolding head_def by (rule strip_right)
  with hn p have hh: "hd head = CHR ''/''" by (metis hd_append2)
  show ?thesis
  proof (cases "head \<noteq> replicate (length head) CHR ''/''")
    case True
    define d where "d = rev (dropWhile (\<lambda>c. c = CHR ''/'') (rev head))"
    from True hn have "head \<noteq> [] \<and> head \<noteq> replicate (length head) CHR ''/''" by simp
    then have dd: "dirname p = d"
      unfolding dirname_head head_def d_def by (rule if_P)
    have "\<not> (\<forall>c \<in> set head. c = CHR ''/'')"
      using True by (metis replicate_length_same)
    then have dn: "d \<noteq> []"
      by (auto simp: d_def dropWhile_eq_Nil_conv)
    have "head = d @ rev (takeWhile (\<lambda>c. c = CHR ''/'') (rev head))"
      unfolding d_def by (rule strip_right)
    with dn hh have "hd d = CHR ''/''" by (metis hd_append2)
    with dn dd show ?thesis by (simp add: startswith_slash)
  next
    case False
    then have "\<not> (head \<noteq> [] \<and> head \<noteq> replicate (length head) CHR ''/'')" by simp
    then have "dirname p = head"
      unfolding dirname_head head_def by (rule if_not_P)
    with hn hh show ?thesis by (simp add: startswith_slash)
  qed
qed

lemma document_root_absolute:
  "startswith d ''/'' \<Longrightarrow> startswith (dirname (abspath d p)) ''/''"
  by (rule dirname_absolute) (rule abspath_absolute)

section \<open>The example installation, evaluated\<close>

lemma example_handler_fields:
  "command (example_handler c p v) = c"
  "path (example_handler c p v) = p"
  "request_version (example_handler c p v) = v"
  "if_modified_since (example_handler c p v) = None"
  "directory (example_handler c p v) = ''/srv/chess-game''"
  "headers_buffer (example_handler c p v) = None"
  "wfile (example_handler c p v) = []"
  "close_connection (example_handler c p v) = True"
  by (simp_all add: example_handler_def example_request_def new_handler_def)

lemma example_env_fields:
  "version_string (example_env t) = ''SimpleHTTP/0.6 Python/3.11.10''"
  "clock (example_env t) = t"
  "date_time_string (example_env t) = example_date"
  "isdir (example_env t) = example_isdir"
  "isfile (example_env t) = example_isfile"
  "fopen (example_env t) = example_fopen"
  "unquote_escapes (example_env t) = example_unquote_escapes"
  "guess_type (example_env t) = example_guess_type"
  "error_page (example_env t) = example_error_page"
  "repr (example_env t) = example_repr"
  by (simp_all add: example_env_def)

lemma example_translate_path:
  "translate_path (example_env t) (example_handler c p v) ''/hello.txt'' = ''/srv/chess-game/hello.txt''"
  "translate_path (example_env t) (example_handler c p v) ''/../../hello.txt'' = ''/srv/chess-game/hello.txt''"
  "translate_path (example_env t) (example_handler c p v) ''/nothing.txt'' = ''/srv/chess-game/nothing.txt''"
  by (simp_all add: translate_path_def example_handler_fields unquote_def rstrip_def isspace_def
      endswith_def normpath_def startswith_def dirname_def join_def Let_def)


lemma example_get_calls:
  assumes "translate_path (example_env t) (example_handler ''GET'' p v) p = ''/srv/chess-game/hello.txt''"
  shows "handle_one_request (example_env t) (example_handler ''GET'' p v) =
     Inr [Send_response_only 200 None,
          Send_header ''Server'' ''SimpleHTTP/0.6 Python/3.11.10'',
          Send_header ''Date'' (example_date t),
          Send_header ''Content-type'' ''text/plain'',
          Send_header ''Content-Length'' ''5'',
          Send_header ''Last-Modified'' ''Sat, 01 Nov 2025 12:26:40 GMT'',
          End_headers,
          Wfile_write ''hello'']"
proof -
  have "send_head (example_env t) (example_handler ''GET'' p v) =
     Inr ([Send_response_only 200 None,
       Send_header ''Server'' ''SimpleHTTP/0.6 Python/3.11.10'',
       Send_header ''Date'' (example_date t),
       Send_header ''Content-type'' ''text/plain'',
       Send_header ''Content-Length'' ''5'',
       Send_header ''Last-Modified'' ''Sat, 01 Nov 2025 12:26:40 GMT'',
       End_headers], Some ''hello'')"
    by (simp add: send_head_def send_head_file_def example_handler_fields assms
        example_env_fields example_isdir_def example_fopen_def example_guess_type_def
        example_date_def endswith_def send_response_def str_nat.simps Let_def)
  moreover have "copyfile ''hello'' = [Wfile_write ''hello'']"
    by (simp add: copyfile_def blocks.simps)
  ultimately show ?thesis
    by (simp add: handle_one_request_def do_GET_def example_handler_fields)
qed

lemma responses_200: "map_of responses 200 = Some (''OK'', ''Request fulfilled, document follows'')"
  by (simp add: responses_def)

lemma exec_NoCacheHandler_file:
  assumes v: "request_version s \<noteq> ''HTTP/0.9''" and b: "headers_buffer s = None"
  shows "exec NoCacheHandler_end_headers
     [Send_response_only 200 None,
      Send_header ''Server'' srv,
      Send_header ''Date'' d,
      Send_header ''Content-type'' ct,
      Send_header ''Content-Length'' cl,
      Send_header ''Last-Modified'' lm,
      End_headers,
      Wfile_write body] s =
     Inr (s\<lparr>headers_buffer := Some [],
            wfile := wfile s @
              [concat ([status_line 200 ''OK'', header_line ''Server'' srv, header_line ''Date'' d,
                        header_line ''Content-type'' ct, header_line ''Content-Length'' cl,
                        header_line ''Last-Modified'' lm] @ no_cache_lines @ [CRLF]),
               body]\<rparr>)"
  using v b
  by (simp add: send_response_only_def responses_200 send_header_not_connection
      NoCacheHandler_end_headers_new buffered_def)

lemma exec_BaseHTTPRequestHandler_file:
  assumes v: "request_version s \<noteq> ''HTTP/0.9''" and b: "headers_buffer s = None"
  shows "exec BaseHTTPRequestHandler_end_headers
     [Send_response_only 200 None,
      Send_header ''Server'' srv,
      Send_header ''Date'' d,
      Send_header ''Content-type'' ct,
      Send_header ''Content-Length'' cl,
      Send_header ''Last-Modified'' lm,
      End_headers,
      Wfile_write body] s =
     Inr (s\<lparr>headers_buffer := Some [],
            wfile := wfile s @
              [concat [status_line 200 ''OK'', header_line ''Server'' srv, header_line ''Date'' d,
                       header_line ''Content-type'' ct, header_line ''Content-Length'' cl,
                       header_line ''Last-Modified'' lm, CRLF],
               body]\<rparr>)"
  using v b
  by (simp add: send_response_only_def responses_200 send_header_not_connection
      BaseHTTPRequestHandler_end_headers_def flush_headers_def buffered_def)

lemma exec_old_file:
  assumes v: "request_version s = ''HTTP/0.9''"
  shows "exec NoCacheHandler_end_headers
     [Send_response_only 200 None,
      Send_header ''Server'' srv,
      Send_header ''Date'' d,
      Send_header ''Content-type'' ct,
      Send_header ''Content-Length'' cl,
      Send_header ''Last-Modified'' lm,
      End_headers,
      Wfile_write body] s =
     Inr (s\<lparr>wfile := wfile s @ [body]\<rparr>)"
  using v
  by (simp add: send_response_only_def send_header_not_connection NoCacheHandler_end_headers_old)

lemma handle_request_noblock_answer:
  "handle_request_noblock e rq p = p\<lparr>served := served p @ [answer e (cwd p) rq]\<rparr>"
  by (simp add: handle_request_noblock_def answer_def NoCacheHandler_handle_def Let_def
      split: sum.splits)

lemma new_handler_fields:
  "command (new_handler d rq) = rq_command rq"
  "path (new_handler d rq) = rq_path rq"
  "request_version (new_handler d rq) = rq_version rq"
  "directory (new_handler d rq) = d"
  "headers_buffer (new_handler d rq) = None"
  "wfile (new_handler d rq) = []"
  by (simp_all add: new_handler_def)


lemma status_line_200: "status_line 200 m = ''HTTP/1.0 200 '' @ m @ CRLF"
  by (simp add: status_line_def protocol_version_def str_nat.simps)




lemma example_startup:
  "startup example_platform ''/srv/chess-game/serve.py'' argv environ example_process =
     Inr example_server"
  by (simp add: startup_def example_platform_def example_can_chdir_def example_can_bind_def
      example_process_def example_server_def abspath_def normpath_def startswith_def dirname_def
      Let_def)

lemma example_root:
  "dirname (abspath (cwd example_process) ''/srv/chess-game/serve.py'') = ''/srv/chess-game''"
  by (simp add: example_process_def abspath_def normpath_def startswith_def dirname_def Let_def)

lemma example_root_relative:
  "abspath (cwd example_process) ''../../srv/chess-game/serve.py'' = ''/srv/chess-game/serve.py''"
  "dirname (abspath (cwd example_process) ''../../srv/chess-game/serve.py'') = ''/srv/chess-game''"
  by (simp_all add: example_process_def abspath_def normpath_def startswith_def dirname_def
      join_def endswith_def Let_def)

lemma example_startup_relative:
  "startup example_platform ''../../srv/chess-game/serve.py'' argv environ example_process =
     Inr example_server"
  unfolding startup_def Let_def example_root_relative(2)
  by (simp add: example_platform_def example_can_chdir_def example_can_bind_def
      example_process_def example_server_def)

lemma example_answer_hello:
  "answer (example_env t) ''/srv/chess-game'' (example_request ''GET'' ''/hello.txt'' ''HTTP/1.1'') =
     [concat ([''HTTP/1.0 200 OK'' @ CRLF,
               header_line ''Server'' ''SimpleHTTP/0.6 Python/3.11.10'',
               header_line ''Date'' (example_date t),
               header_line ''Content-type'' ''text/plain'',
               header_line ''Content-Length'' ''5'',
               header_line ''Last-Modified'' ''Sat, 01 Nov 2025 12:26:40 GMT''] @
              no_cache_lines @ [CRLF]),
      ''hello'']"
proof -
  have v: "request_version (example_handler ''GET'' ''/hello.txt'' ''HTTP/1.1'') \<noteq> ''HTTP/0.9''"
    and b: "headers_buffer (example_handler ''GET'' ''/hello.txt'' ''HTTP/1.1'') = None"
    by (simp_all add: example_handler_fields)
  show ?thesis
    unfolding answer_def example_handler_def [symmetric] NoCacheHandler_handle_def
      example_get_calls [OF example_translate_path(1)] sum.case exec_NoCacheHandler_file [OF v b]
    by (simp add: example_handler_fields status_line_200)
qed

section \<open>C1: the three no-cache headers on every response\<close>

text \<open>
  C1, as stated, fails. A request line of two words (\<^verbatim>\<open>GET /hello.txt\<close>) is an HTTP/0.9
  request: \<^verbatim>\<open>parse_request\<close> leaves \<^verbatim>\<open>request_version\<close> at \<^verbatim>\<open>'HTTP/0.9'\<close>, and every
  \<^verbatim>\<open>send_response_only\<close>, \<^verbatim>\<open>send_header\<close> and \<^verbatim>\<open>end_headers\<close> is then a no-op on the
  buffer. The override runs, but all the client receives is the five bytes of the file: no
  header block, and so none of the three headers.
\<close>

theorem http09_response_carries_no_header:
  "NoCacheHandler_handle (example_env 1762181400) (example_handler ''GET'' ''/hello.txt'' ''HTTP/0.9'')
     = Inr ((example_handler ''GET'' ''/hello.txt'' ''HTTP/0.9'')\<lparr>wfile := [''hello'']\<rparr>)"
proof -
  have v: "request_version (example_handler ''GET'' ''/hello.txt'' ''HTTP/0.9'') = ''HTTP/0.9''"
    by (simp add: example_handler_fields)
  show ?thesis
    unfolding NoCacheHandler_handle_def example_get_calls [OF example_translate_path(1)]
      sum.case exec_old_file [OF v]
    by (simp add: example_handler_fields)
qed

text \<open>
  C1, amended. For every request whose version is not HTTP/0.9, whatever calls the inherited
  handler makes (any path, method, status code or kind of resource), the run in a
  \<^verbatim>\<open>NoCacheHandler\<close> ends without an exception, and every byte string it writes to the client
  is either a body write the inherited code asked for, or a header block that ends with the
  lines \<^verbatim>\<open>Cache-Control: no-store, no-cache, must-revalidate, max-age=0\<close>,
  \<^verbatim>\<open>Pragma: no-cache\<close>, \<^verbatim>\<open>Expires: 0\<close> and the blank line. Header lines reach the client
  through \<^verbatim>\<open>end_headers\<close> only, so no header block bypasses the override.
\<close>

theorem header_universality:
  assumes "request_version s \<noteq> ''HTTP/0.9''"
  shows "\<exists>s' new. exec NoCacheHandler_end_headers p s = Inr s' \<and> wfile s' = wfile s @ new \<and>
     (\<forall>c \<in> set new. c \<in> set (bodies p) \<or> (\<exists>h. c = concat (h @ no_cache_lines @ [CRLF])))"
  using assms by (rule exec_NoCacheHandler_blocks)

text \<open>
  The hypothesis holds for \<^verbatim>\<open>GET /hello.txt HTTP/1.1\<close>.
\<close>

theorem header_universality_witness:
  "request_version (example_handler ''GET'' ''/hello.txt'' ''HTTP/1.1'') \<noteq> ''HTTP/0.9'' \<and>
   map_sum id bodies (handle_one_request (example_env 1762181400)
     (example_handler ''GET'' ''/hello.txt'' ''HTTP/1.1'')) = Inr [''hello''] \<and>
   (\<exists>s' new.
      NoCacheHandler_handle (example_env 1762181400)
        (example_handler ''GET'' ''/hello.txt'' ''HTTP/1.1'') = Inr s' \<and>
      wfile s' = wfile (example_handler ''GET'' ''/hello.txt'' ''HTTP/1.1'') @ new \<and>
      (\<forall>c \<in> set new.
         c \<in> set [''hello''] \<or> (\<exists>h. c = concat (h @ no_cache_lines @ [CRLF]))))"
proof -
  define calls where "calls =
       [Send_response_only 200 None,
        Send_header ''Server'' ''SimpleHTTP/0.6 Python/3.11.10'',
        Send_header ''Date'' ''Mon, 03 Nov 2025 14:50:00 GMT'',
        Send_header ''Content-type'' ''text/plain'',
        Send_header ''Content-Length'' ''5'',
        Send_header ''Last-Modified'' ''Sat, 01 Nov 2025 12:26:40 GMT'',
        End_headers,
        Wfile_write ''hello'']"
  have v: "request_version (example_handler ''GET'' ''/hello.txt'' ''HTTP/1.1'') \<noteq> ''HTTP/0.9''"
    by (simp add: example_handler_fields)
  have h: "handle_one_request (example_env 1762181400)
      (example_handler ''GET'' ''/hello.txt'' ''HTTP/1.1'') = Inr calls"
    unfolding calls_def example_get_calls [OF example_translate_path(1)]
    by (simp add: example_date_def)
  have b: "bodies calls = [''hello'']"
    by (simp add: calls_def)
  from header_universality [OF v, of calls] v show ?thesis
    unfolding NoCacheHandler_handle_def h sum.case b by (simp add: b)
qed

section \<open>C2: the three headers come last in the header block\<close>

text \<open>
  C2. \<^verbatim>\<open>NoCacheHandler.end_headers\<close> never raises. For an HTTP/0.9 request there is no
  header block and it leaves the handler as it is. Otherwise it makes one write to the client:
  every line buffered so far (the status line and the header fields of the inherited handler)
  in order, then the three no-cache lines, then the blank line that ends the block; the buffer
  is empty afterwards. The three fields are thus the last lines before the block is finished
  and sent, after every field the inherited handler produced, and they are added to those
  fields: nothing buffered is removed or replaced.
\<close>

theorem no_cache_headers_appended_last:
  "NoCacheHandler_end_headers s =
     (if request_version s = ''HTTP/0.9'' then Inr s
      else Inr (s\<lparr>wfile := wfile s @
                    [concat (buffered s) @
                     ''Cache-Control: no-store, no-cache, must-revalidate, max-age=0'' @ CRLF @
                     ''Pragma: no-cache'' @ CRLF @
                     ''Expires: 0'' @ CRLF @
                     CRLF],
                  headers_buffer := Some []\<rparr>))"
  by (simp add: NoCacheHandler_end_headers_old NoCacheHandler_end_headers_new
      no_cache_lines_def header_line_def)

text \<open>
  With a status line and one header field in the buffer.
\<close>

theorem no_cache_headers_appended_last_witness:
  "NoCacheHandler_end_headers
     ((example_handler ''GET'' ''/hello.txt'' ''HTTP/1.1'')
        \<lparr>headers_buffer := Some [''HTTP/1.0 200 OK'' @ CRLF, ''Content-Length: 5'' @ CRLF]\<rparr>)
   = Inr ((example_handler ''GET'' ''/hello.txt'' ''HTTP/1.1'')
       \<lparr>wfile := [''HTTP/1.0 200 OK'' @ CRLF @
                   ''Content-Length: 5'' @ CRLF @
                   ''Cache-Control: no-store, no-cache, must-revalidate, max-age=0'' @ CRLF @
                   ''Pragma: no-cache'' @ CRLF @
                   ''Expires: 0'' @ CRLF @
                   CRLF],
         headers_buffer := Some []\<rparr>)"
  using no_cache_headers_appended_last
    [of "(example_handler ''GET'' ''/hello.txt'' ''HTTP/1.1'')
        \<lparr>headers_buffer := Some [''HTTP/1.0 200 OK'' @ CRLF, ''Content-Length: 5'' @ CRLF]\<rparr>"]
  by (simp add: example_handler_fields buffered_def)

section \<open>C3: status line and body are those of the baseline handler\<close>

text \<open>
  C3. Take any list of calls the inherited handler makes for a request, and a run of it in a
  plain \<^verbatim>\<open>SimpleHTTPRequestHandler\<close> that ends without an exception. Then the run in a
  \<^verbatim>\<open>NoCacheHandler\<close> from the same state also ends without an exception; the two final
  handlers agree on everything but the bytes written; they made the same number of writes, and
  each write is either the same bytes or a header block that differs only by the three no-cache
  lines in front of its blank line. Moreover the run in a \<^verbatim>\<open>NoCacheHandler\<close> is the plain run
  of the same calls with the three \<^verbatim>\<open>send_header\<close> calls put before each \<^verbatim>\<open>end_headers\<close>,
  which leaves the status lines and the body writes as they were. The calls themselves (path
  resolution, file reads, MIME type, directory index, choice of status) are computed by the
  inherited code alone: \<open>handle_one_request\<close> does not depend on the class.
\<close>

theorem wrapper_changes_only_headers:
  assumes "exec BaseHTTPRequestHandler_end_headers p s = Inr sb"
  shows "\<exists>sn. exec NoCacheHandler_end_headers p s = Inr sn \<and>
           same_but_wfile sb sn \<and>
           list_all2 same_or_injected (wfile sb) (wfile sn) \<and>
           exec NoCacheHandler_end_headers p s =
             exec BaseHTTPRequestHandler_end_headers (inject p) s \<and>
           statuses (inject p) = statuses p \<and>
           bodies (inject p) = bodies p"
proof -
  have "same_but_wfile s s"
    by (simp add: same_but_wfile_def)
  moreover have "list_all2 same_or_injected (wfile s) (wfile s)"
    by (simp add: list_all2_same same_or_injected_refl)
  ultimately obtain sn where "exec NoCacheHandler_end_headers p s = Inr sn"
    "same_but_wfile sb sn" "list_all2 same_or_injected (wfile sb) (wfile sn)"
    using exec_frame [OF _ _ assms] by blast
  then show ?thesis
    by (auto simp: exec_inject statuses_inject bodies_inject)
qed

text \<open>
  The plain run for \<^verbatim>\<open>GET /hello.txt HTTP/1.1\<close> ends without an exception.
\<close>

theorem wrapper_changes_only_headers_witness:
  "SimpleHTTPRequestHandler_handle (example_env 1762181400)
     (example_handler ''GET'' ''/hello.txt'' ''HTTP/1.1'')
     = Inr ((example_handler ''GET'' ''/hello.txt'' ''HTTP/1.1'')
         \<lparr>headers_buffer := Some [],
           wfile := [''HTTP/1.0 200 OK'' @ CRLF @
                     ''Server: SimpleHTTP/0.6 Python/3.11.10'' @ CRLF @
                     ''Date: Mon, 03 Nov 2025 14:50:00 GMT'' @ CRLF @
                     ''Content-type: text/plain'' @ CRLF @
                     ''Content-Length: 5'' @ CRLF @
                     ''Last-Modified: Sat, 01 Nov 2025 12:26:40 GMT'' @ CRLF @ CRLF,
                     ''hello'']\<rparr>) \<and>
   (\<exists>sn. NoCacheHandler_handle (example_env 1762181400)
            (example_handler ''GET'' ''/hello.txt'' ''HTTP/1.1'') = Inr sn \<and>
      list_all2 same_or_injected
        [''HTTP/1.0 200 OK'' @ CRLF @
         ''Server: SimpleHTTP/0.6 Python/3.11.10'' @ CRLF @
         ''Date: Mon, 03 Nov 2025 14:50:00 GMT'' @ CRLF @
         ''Content-type: text/plain'' @ CRLF @
         ''Content-Length: 5'' @ CRLF @
         ''Last-Modified: Sat, 01 Nov 2025 12:26:40 GMT'' @ CRLF @ CRLF,
         ''hello'']
        (wfile sn))"
proof -
  define calls where "calls =
       [Send_response_only 200 None,
        Send_header ''Server'' ''SimpleHTTP/0.6 Python/3.11.10'',
        Send_header ''Date'' ''Mon, 03 Nov 2025 14:50:00 GMT'',
        Send_header ''Content-type'' ''text/plain'',
        Send_header ''Content-Length'' ''5'',
        Send_header ''Last-Modified'' ''Sat, 01 Nov 2025 12:26:40 GMT'',
        End_headers,
        Wfile_write ''hello'']"
  have v: "request_version (example_handler ''GET'' ''/hello.txt'' ''HTTP/1.1'') \<noteq> ''HTTP/0.9''"
    and b: "headers_buffer (example_handler ''GET'' ''/hello.txt'' ''HTTP/1.1'') = None"
    by (simp_all add: example_handler_fields)
  have h: "handle_one_request (example_env 1762181400)
      (example_handler ''GET'' ''/hello.txt'' ''HTTP/1.1'') = Inr calls"
    unfolding calls_def example_get_calls [OF example_translate_path(1)]
    by (simp add: example_date_def)
  have run: "exec BaseHTTPRequestHandler_end_headers calls
      (example_handler ''GET'' ''/hello.txt'' ''HTTP/1.1'')
     = Inr ((example_handler ''GET'' ''/hello.txt'' ''HTTP/1.1'')
         \<lparr>headers_buffer := Some [],
           wfile := [''HTTP/1.0 200 OK'' @ CRLF @
                     ''Server: SimpleHTTP/0.6 Python/3.11.10'' @ CRLF @
                     ''Date: Mon, 03 Nov 2025 14:50:00 GMT'' @ CRLF @
                     ''Content-type: text/plain'' @ CRLF @
                     ''Content-Length: 5'' @ CRLF @
                     ''Last-Modified: Sat, 01 Nov 2025 12:26:40 GMT'' @ CRLF @ CRLF,
                     ''hello'']\<rparr>)"
    unfolding calls_def exec_BaseHTTPRequestHandler_file [OF v b]
    by (simp add: example_handler_fields status_line_200 header_line_def)
  from wrapper_changes_only_headers [OF run] run show ?thesis
    unfolding SimpleHTTPRequestHandler_handle_def NoCacheHandler_handle_def h sum.case by auto
qed

section \<open>C4: a path with no file behind it\<close>




section \<open>C5: traversal sequences in the request path\<close>

text \<open>
  C5, as stated, fails in its second half: a path with traversal sequences need not yield an
  error status. \<^verbatim>\<open>GET /../../hello.txt HTTP/1.1\<close> is translated to
  \<^verbatim>\<open>/srv/chess-game/hello.txt\<close>, a file inside the document root, and answered \<^verbatim>\<open>200 OK\<close>
  with that file's bytes.
\<close>

theorem traversal_request_is_served:
  "translate_path (example_env 1762181400)
     (example_handler ''GET'' ''/../../hello.txt'' ''HTTP/1.1'') ''/../../hello.txt''
     = ''/srv/chess-game/hello.txt'' \<and>
   take 15 (sent (NoCacheHandler_handle (example_env 1762181400)
     (example_handler ''GET'' ''/../../hello.txt'' ''HTTP/1.1''))) = ''HTTP/1.0 200 OK'' \<and>
   map_sum id bodies (handle_one_request (example_env 1762181400)
     (example_handler ''GET'' ''/../../hello.txt'' ''HTTP/1.1'')) = Inr [''hello'']"
proof -
  have v: "request_version (example_handler ''GET'' ''/../../hello.txt'' ''HTTP/1.1'') \<noteq> ''HTTP/0.9''"
    and b: "headers_buffer (example_handler ''GET'' ''/../../hello.txt'' ''HTTP/1.1'') = None"
    by (simp_all add: example_handler_fields)
  have "take 15 (sent (NoCacheHandler_handle (example_env 1762181400)
     (example_handler ''GET'' ''/../../hello.txt'' ''HTTP/1.1''))) = ''HTTP/1.0 200 OK''"
    unfolding NoCacheHandler_handle_def example_get_calls [OF example_translate_path(2)]
      sum.case exec_NoCacheHandler_file [OF v b]
    by (simp add: sent_def example_handler_fields status_line_200)
  moreover have "map_sum id bodies (handle_one_request (example_env 1762181400)
     (example_handler ''GET'' ''/../../hello.txt'' ''HTTP/1.1'')) = Inr [''hello'']"
    unfolding example_get_calls [OF example_translate_path(2)] by simp
  ultimately show ?thesis
    by (simp add: example_translate_path)
qed

text \<open>
  C5, amended. For every request path, traversal sequences or not, whatever percent-decoding
  yields, the file-system path the handler looks up is the document root extended by path
  components, optionally followed by a slash, where no component is empty, \<^verbatim>\<open>.\<close> or \<^verbatim>\<open>..\<close>
  or contains a slash; when the document root is not empty and does not end in a slash, that
  is the root, then \<^verbatim>\<open>/\<close> and a component for each of them. The path so names an entry
  lexically inside the document root, and the answer is whatever that entry yields: an error
  status only when nothing can be opened there.
\<close>

theorem translate_path_stays_inside:
  "\<exists>ws. (\<forall>w \<in> set ws. w \<noteq> [] \<and> w \<noteq> ''.'' \<and> w \<noteq> ''..'' \<and> CHR ''/'' \<notin> set w) \<and>
        (translate_path e s p = foldl join (directory s) ws \<or>
         translate_path e s p = foldl join (directory s) ws @ ''/'') \<and>
        (directory s \<noteq> [] \<and> \<not> endswith (directory s) ''/'' \<longrightarrow>
         foldl join (directory s) ws = directory s @ concat (map (\<lambda>w. ''/'' @ w) ws))"
proof -
  from translate_path_words [of e s p] obtain ws where
    ws: "\<forall>w \<in> set ws. w \<noteq> [] \<and> w \<noteq> ''.'' \<and> w \<noteq> ''..'' \<and> CHR ''/'' \<notin> set w" and
    tp: "translate_path e s p = foldl join (directory s) ws \<or>
         translate_path e s p = foldl join (directory s) ws @ ''/''"
    by blast
  have "foldl join (directory s) ws = directory s @ concat (map (\<lambda>w. ''/'' @ w) ws)"
    if "directory s \<noteq> []" "\<not> endswith (directory s) ''/''"
    using that ws by (intro foldl_join_simple) simp_all
  with ws tp show ?thesis by blast
qed

text \<open>
  The example document root is not empty and does not end in a slash.
\<close>

theorem translate_path_stays_inside_witness:
  "directory (example_handler ''GET'' ''/../../hello.txt'' ''HTTP/1.1'') \<noteq> [] \<and>
   \<not> endswith (directory (example_handler ''GET'' ''/../../hello.txt'' ''HTTP/1.1'')) ''/'' \<and>
   (\<exists>ws. ''..'' \<notin> set ws \<and>
      (''/srv/chess-game/hello.txt'' = ''/srv/chess-game'' @ concat (map (\<lambda>w. ''/'' @ w) ws) \<or>
       ''/srv/chess-game/hello.txt'' = ''/srv/chess-game'' @ concat (map (\<lambda>w. ''/'' @ w) ws) @ ''/''))"
proof -
  let ?s = "example_handler ''GET'' ''/../../hello.txt'' ''HTTP/1.1''"
  have d: "directory ?s \<noteq> []" "\<not> endswith (directory ?s) ''/''"
    by (simp_all add: example_handler_fields endswith_def)
  from translate_path_stays_inside [of "example_env 1762181400" ?s "''/../../hello.txt''"]
  obtain ws where
    ws: "\<forall>w \<in> set ws. w \<noteq> [] \<and> w \<noteq> ''.'' \<and> w \<noteq> ''..'' \<and> CHR ''/'' \<notin> set w" and
    tp: "translate_path (example_env 1762181400) ?s ''/../../hello.txt'' = foldl join (directory ?s) ws \<or>
         translate_path (example_env 1762181400) ?s ''/../../hello.txt'' = foldl join (directory ?s) ws @ ''/''" and
    fj: "directory ?s \<noteq> [] \<and> \<not> endswith (directory ?s) ''/'' \<longrightarrow>
         foldl join (directory ?s) ws = directory ?s @ concat (map (\<lambda>w. ''/'' @ w) ws)"
    by blast
  from fj d have fj': "foldl join (directory ?s) ws = directory ?s @ concat (map (\<lambda>w. ''/'' @ w) ws)"
    by blast
  have dir: "directory ?s = ''/srv/chess-game''"
    by (rule example_handler_fields)
  from fj' have fj'': "foldl join ''/srv/chess-game'' ws =
      ''/srv/chess-game'' @ concat (map (\<lambda>w. ''/'' @ w) ws)"
    unfolding dir .
  from ws have n: "''..'' \<notin> set ws" by blast
  from tp have "''/srv/chess-game/hello.txt'' = ''/srv/chess-game'' @ concat (map (\<lambda>w. ''/'' @ w) ws) \<or>
       ''/srv/chess-game/hello.txt'' = (''/srv/chess-game'' @ concat (map (\<lambda>w. ''/'' @ w) ws)) @ ''/''"
    unfolding example_translate_path(2) dir fj'' .
  then have "''/srv/chess-game/hello.txt'' = ''/srv/chess-game'' @ concat (map (\<lambda>w. ''/'' @ w) ws) \<or>
       ''/srv/chess-game/hello.txt'' = ''/srv/chess-game'' @ concat (map (\<lambda>w. ''/'' @ w) ws) @ ''/''"
    by (simp only: append_assoc)
  with n have "\<exists>ws. ''..'' \<notin> set ws \<and>
      (''/srv/chess-game/hello.txt'' = ''/srv/chess-game'' @ concat (map (\<lambda>w. ''/'' @ w) ws) \<or>
       ''/srv/chess-game/hello.txt'' = ''/srv/chess-game'' @ concat (map (\<lambda>w. ''/'' @ w) ws) @ ''/'')"
    by (intro exI [of _ ws] conjI)
  with d show ?thesis by (intro conjI)
qed

section \<open>C6: the document root is fixed at start-up\<close>

text \<open>
  C6. When start-up succeeds, the working directory is
  \<^verbatim>\<open>dirname(abspath(__file__))\<close>, and after any number of rounds of the serve loop, whatever
  connections arrive, it still is; every handler object created then takes that directory as
  its document root. When start-up fails, no listening socket has been bound; and if the
  \<^verbatim>\<open>chdir\<close> itself was possible, the working directory had already been changed when the
  fault occurred, that is, before the bind. That directory is an absolute path: when the
  working directory the process starts in is absolute (it begins with a slash, as
  \<^verbatim>\<open>os.getcwd()\<close> always does), so are \<^verbatim>\<open>abspath(__file__)\<close>, its \<^verbatim>\<open>dirname\<close>, the working
  directory after start-up and the document root of every handler, whether \<^verbatim>\<open>__file__\<close> is
  relative or not. And it is the directory containing the entry file: the absolute path of
  the entry file is that directory, then slashes, then a last component without a slash.
\<close>

theorem document_root_fixed_at_startup:
  "(\<forall>p. startup os file argv environ p0 = Inr p \<longrightarrow>
      cwd p = dirname (abspath (cwd p0) file) \<and>
      (\<forall>n. cwd (rounds select i n p) = dirname (abspath (cwd p0) file) \<and>
           (\<forall>rq. directory (new_handler (cwd (rounds select i n p)) rq) =
                 dirname (abspath (cwd p0) file)))) \<and>
   (\<forall>x p'. startup os file argv environ p0 = Inl (x, p') \<longrightarrow>
      listening p' = listening p0 \<and>
      (can_chdir os (dirname (abspath (cwd p0) file)) \<longrightarrow>
         cwd p' = dirname (abspath (cwd p0) file))) \<and>
   (startswith (cwd p0) ''/'' \<longrightarrow>
      startswith (abspath (cwd p0) file) ''/'' \<and>
      startswith (dirname (abspath (cwd p0) file)) ''/'' \<and>
      (\<forall>p. startup os file argv environ p0 = Inr p \<longrightarrow>
         startswith (cwd p) ''/'' \<and>
         (\<forall>n rq. startswith (directory (new_handler (cwd (rounds select i n p)) rq)) ''/''))) \<and>
   (\<exists>k name. CHR ''/'' \<notin> set name \<and>
      abspath (cwd p0) file =
        dirname (abspath (cwd p0) file) @ replicate k CHR ''/'' @ name)"
proof (intro conjI allI impI)
  fix p
  assume "startup os file argv environ p0 = Inr p"
  from startup_Inr [OF this] have c: "cwd p = dirname (abspath (cwd p0) file)" by simp
  then show "cwd p = dirname (abspath (cwd p0) file)" .
  fix n
  show "cwd (rounds select i n p) = dirname (abspath (cwd p0) file)"
    by (simp add: rounds_fields c)
  fix rq
  show "directory (new_handler (cwd (rounds select i n p)) rq) = dirname (abspath (cwd p0) file)"
    by (simp add: rounds_fields c new_handler_fields)
next
  fix x p'
  assume f: "startup os file argv environ p0 = Inl (x, p')"
  then show "listening p' = listening p0"
    by (auto simp: startup_def Let_def split: if_splits)
  assume "can_chdir os (dirname (abspath (cwd p0) file))"
  with f show "cwd p' = dirname (abspath (cwd p0) file)"
    by (auto simp: startup_def Let_def split: if_splits)
next
  assume a: "startswith (cwd p0) ''/''"
  then show "startswith (abspath (cwd p0) file) ''/''"
    by (rule abspath_absolute)
  from a show r: "startswith (dirname (abspath (cwd p0) file)) ''/''"
    by (rule document_root_absolute)
  fix p
  assume "startup os file argv environ p0 = Inr p"
  from startup_Inr [OF this] have c: "cwd p = dirname (abspath (cwd p0) file)" by simp
  with r show "startswith (cwd p) ''/''" by simp
  fix n rq
  from r show "startswith (directory (new_handler (cwd (rounds select i n p)) rq)) ''/''"
    by (simp add: rounds_fields c new_handler_fields)
next
  show "\<exists>k name. CHR ''/'' \<notin> set name \<and>
      abspath (cwd p0) file =
        dirname (abspath (cwd p0) file) @ replicate k CHR ''/'' @ name"
    by (rule dirname_split)
qed

text \<open>
  The program started in \<^verbatim>\<open>/home/dev\<close> with the relative
  \<^verbatim>\<open>__file__\<close> \<^verbatim>\<open>../../srv/chess-game/serve.py\<close>.
\<close>

theorem document_root_fixed_at_startup_witness:
  "startswith (cwd example_process) ''/'' \<and>
   startup example_platform ''../../srv/chess-game/serve.py'' [] [] example_process =
     Inr example_server \<and>
   abspath (cwd example_process) ''../../srv/chess-game/serve.py'' = ''/srv/chess-game/serve.py'' \<and>
   cwd example_server = ''/srv/chess-game'' \<and>
   cwd (rounds example_select 0 2 example_server) = ''/srv/chess-game'' \<and>
   directory (new_handler (cwd (rounds example_select 0 2 example_server))
      (example_request ''GET'' ''/hello.txt'' ''HTTP/1.1'')) = ''/srv/chess-game'' \<and>
   startswith (cwd example_server) ''/''"
proof -
  have a: "startswith (cwd example_process) ''/''"
    by (simp add: example_process_def startswith_def)
  note t = document_root_fixed_at_startup
    [of example_platform "''../../srv/chess-game/serve.py''" "[]" "[]" example_process
      example_select 0]
  from t have "\<forall>p. startup example_platform ''../../srv/chess-game/serve.py'' [] [] example_process
        = Inr p \<longrightarrow>
      cwd p = dirname (abspath (cwd example_process) ''../../srv/chess-game/serve.py'') \<and>
      (\<forall>n. cwd (rounds example_select 0 n p) =
             dirname (abspath (cwd example_process) ''../../srv/chess-game/serve.py'') \<and>
           (\<forall>rq. directory (new_handler (cwd (rounds example_select 0 n p)) rq) =
                 dirname (abspath (cwd example_process) ''../../srv/chess-game/serve.py'')))"
    by (rule conjunct1)
  then have 1: "cwd example_server = ''/srv/chess-game''"
    "cwd (rounds example_select 0 2 example_server) = ''/srv/chess-game''"
    "directory (new_handler (cwd (rounds example_select 0 2 example_server))
       (example_request ''GET'' ''/hello.txt'' ''HTTP/1.1'')) = ''/srv/chess-game''"
    unfolding example_root_relative(2) using example_startup_relative [of "[]" "[]"] by blast+
  from t a have "\<forall>p. startup example_platform ''../../srv/chess-game/serve.py'' [] [] example_process
        = Inr p \<longrightarrow>
      startswith (cwd p) ''/'' \<and>
      (\<forall>n rq. startswith (directory (new_handler (cwd (rounds example_select 0 n p)) rq)) ''/'')"
    by blast
  then have 2: "startswith (cwd example_server) ''/''"
    using example_startup_relative [of "[]" "[]"] by blast
  from a example_startup_relative [of "[]" "[]"] example_root_relative(1) 1 2
  show ?thesis by (intro conjI)
qed

section \<open>C7: the start-up message\<close>

text \<open>
  C7. When start-up succeeds, standard output has received the line
  \<^verbatim>\<open>Serving at http://localhost:9091 (no-cache)\<close> and a newline, once, and no connection has
  been served yet; after any number of rounds of the serve loop, whatever connections arrive,
  standard output still holds that one line and nothing more.
\<close>

theorem startup_message_once:
  assumes "startup os file argv environ p0 = Inr p"
  shows "stdout p = stdout p0 @ ''Serving at http://localhost:9091 (no-cache)'' @ [CHR 0x0A] \<and>
         served p = served p0 \<and>
         stdout (rounds select i n p) =
           stdout p0 @ ''Serving at http://localhost:9091 (no-cache)'' @ [CHR 0x0A]"
  using startup_Inr [OF assms] by (simp add: rounds_fields)

text \<open>
  In the example installation, where nothing had been printed before.
\<close>

theorem startup_message_once_witness:
  "startup example_platform ''/srv/chess-game/serve.py'' [] [] example_process = Inr example_server \<and>
   stdout (rounds example_select 0 2 example_server) =
     ''Serving at http://localhost:9091 (no-cache)'' @ [CHR 0x0A] \<and>
   served example_server = []"
proof -
  have "stdout example_process = []"
    by (simp add: example_process_def)
  moreover have "served example_server = []"
    by (simp add: example_server_def)
  ultimately show ?thesis
    using startup_message_once
      [OF example_startup, where select = example_select and i = 0 and n = 2]
      example_startup
    by simp
qed

section \<open>C8: port 9091, no configuration, and a loop that does not return\<close>

text \<open>
  C8. When start-up succeeds, it succeeds with the same result for any other command line
  and any other environment variables; the listening socket is bound to the empty host (all
  interfaces) and port 9091; and \<^verbatim>\<open>serve_forever\<close> does not return, whatever connections
  arrive.
\<close>

theorem binds_9091_and_serves_forever:
  assumes "startup os file argv environ p0 = Inr p"
  shows "startup os file argv' environ' p0 = Inr p \<and>
         listening p = Some ([], 9091) \<and>
         serve_forever select i p = None"
proof -
  from startup_Inr [OF assms] have "listening p = Some ([], 9091)" "\<not> shutdown_request p"
    by simp_all
  moreover have "startup os file argv' environ' p0 = startup os file argv environ p0"
    by (simp add: startup_def)
  ultimately show ?thesis
    using assms by (simp add: serve_forever_never_returns)
qed

text \<open>
  In the example installation, also when started with \<^verbatim>\<open>--port 8000\<close> and \<^verbatim>\<open>PORT=8000\<close>.
\<close>

theorem binds_9091_and_serves_forever_witness:
  "startup example_platform ''/srv/chess-game/serve.py'' [] [] example_process = Inr example_server \<and>
   startup example_platform ''/srv/chess-game/serve.py'' [''--port'', ''8000'']
     [(''PORT'', ''8000'')] example_process = Inr example_server \<and>
   listening example_server = Some ([], 9091) \<and>
   serve_forever example_select 0 example_server = None"
  using binds_9091_and_serves_forever [OF example_startup]
    example_startup [of "[''--port'', ''8000'']" "[(''PORT'', ''8000'')]"]
  by (simp add: example_startup)

section \<open>C9: the same request twice\<close>

text \<open>
  C9, as stated, fails: the header values are not identical both times. The same
  \<^verbatim>\<open>GET /hello.txt HTTP/1.1\<close>, served twice in succession with the file unchanged, is
  answered with \<^verbatim>\<open>Date: Mon, 03 Nov 2025 14:50:00 GMT\<close> and then with
  \<^verbatim>\<open>Date: Mon, 03 Nov 2025 14:50:01 GMT\<close>: \<^verbatim>\<open>send_response\<close> puts the time of the answer in
  every header block.
\<close>

theorem same_get_later_differs_in_date:
  "served (rounds example_select 0 2 example_server) =
     [[concat ([''HTTP/1.0 200 OK'' @ CRLF,
                ''Server: SimpleHTTP/0.6 Python/3.11.10'' @ CRLF,
                ''Date: Mon, 03 Nov 2025 14:50:00 GMT'' @ CRLF,
                ''Content-type: text/plain'' @ CRLF,
                ''Content-Length: 5'' @ CRLF,
                ''Last-Modified: Sat, 01 Nov 2025 12:26:40 GMT'' @ CRLF] @
               no_cache_lines @ [CRLF]),
       ''hello''],
      [concat ([''HTTP/1.0 200 OK'' @ CRLF,
                ''Server: SimpleHTTP/0.6 Python/3.11.10'' @ CRLF,
                ''Date: Mon, 03 Nov 2025 14:50:01 GMT'' @ CRLF,
                ''Content-type: text/plain'' @ CRLF,
                ''Content-Length: 5'' @ CRLF,
                ''Last-Modified: Sat, 01 Nov 2025 12:26:40 GMT'' @ CRLF] @
               no_cache_lines @ [CRLF]),
       ''hello'']] \<and>
   served (rounds example_select 0 2 example_server) ! 0 \<noteq>
   served (rounds example_select 0 2 example_server) ! 1"
proof -
  have c: "cwd example_server = ''/srv/chess-game''" "served example_server = []"
    by (simp_all add: example_server_def)
  have "rounds example_select 0 2 example_server =
      serve_step example_select 1 (serve_step example_select 0 example_server)"
    by (simp add: numeral_2_eq_2)
  then have "served (rounds example_select 0 2 example_server) =
      [answer (example_env 1762181400) ''/srv/chess-game''
         (example_request ''GET'' ''/hello.txt'' ''HTTP/1.1''),
       answer (example_env 1762181401) ''/srv/chess-game''
         (example_request ''GET'' ''/hello.txt'' ''HTTP/1.1'')]"
    by (simp add: serve_step_def example_select_def handle_request_noblock_answer c)
  then show ?thesis
    by (simp add: example_answer_hello example_date_def header_line_def)
qed

text \<open>
  C9, amended. The same request served twice, the second time when the clock reads \<open>t\<close> and
  all else is unchanged: the process is as before but for the two answers, each computed from
  the request, the environment and the unchanged working directory alone; the calls behind
  the two answers agree except for the value of the \<^verbatim>\<open>Date\<close> header, so the status lines and
  the body bytes are identical; and when the clock reads the same, the two answers are
  identical byte for byte.
\<close>

theorem same_request_same_answer_but_date:
  "handle_request_noblock (e\<lparr>clock := t\<rparr>) rq (handle_request_noblock e rq p) =
     p\<lparr>served := served p @ [answer e (cwd p) rq, answer (e\<lparr>clock := t\<rparr>) (cwd p) rq]\<rparr> \<and>
   map_sum id (map undate) (handle_one_request (e\<lparr>clock := t\<rparr>) (new_handler (cwd p) rq)) =
     map_sum id (map undate) (handle_one_request e (new_handler (cwd p) rq)) \<and>
   map_sum id statuses (handle_one_request (e\<lparr>clock := t\<rparr>) (new_handler (cwd p) rq)) =
     map_sum id statuses (handle_one_request e (new_handler (cwd p) rq)) \<and>
   map_sum id bodies (handle_one_request (e\<lparr>clock := t\<rparr>) (new_handler (cwd p) rq)) =
     map_sum id bodies (handle_one_request e (new_handler (cwd p) rq)) \<and>
   (t = clock e \<longrightarrow> answer (e\<lparr>clock := t\<rparr>) (cwd p) rq = answer e (cwd p) rq)"
proof -
  define h2 where "h2 = handle_one_request (e\<lparr>clock := t\<rparr>) (new_handler (cwd p) rq)"
  define h1 where "h1 = handle_one_request e (new_handler (cwd p) rq)"
  have u: "map_sum id (map undate) h2 = map_sum id (map undate) h1"
    unfolding h1_def h2_def by (rule handle_one_request_clock)
  have su: "map_sum id statuses (map_sum id (map undate) h) = map_sum id statuses h" for h
    by (cases h) (simp_all add: statuses_undate)
  have bu: "map_sum id bodies (map_sum id (map undate) h) = map_sum id bodies h" for h
    by (cases h) (simp_all add: bodies_undate)
  from u have "map_sum id statuses (map_sum id (map undate) h2) =
      map_sum id statuses (map_sum id (map undate) h1)"
    by (rule arg_cong)
  then have s: "map_sum id statuses h2 = map_sum id statuses h1"
    by (simp only: su)
  from u have "map_sum id bodies (map_sum id (map undate) h2) =
      map_sum id bodies (map_sum id (map undate) h1)"
    by (rule arg_cong)
  then have b: "map_sum id bodies h2 = map_sum id bodies h1"
    by (simp only: bu)
  have "t = clock e \<longrightarrow> e\<lparr>clock := t\<rparr> = e" by simp
  with u s b show ?thesis
    unfolding h1_def h2_def
    by (auto simp: handle_request_noblock_answer)
qed

text \<open>
  At the same instant the answers are the same; a second later the bodies still are.
\<close>

theorem same_request_same_answer_but_date_witness:
  "1762181400 = clock (example_env 1762181400) \<and>
   answer ((example_env 1762181400)\<lparr>clock := 1762181400\<rparr>) (cwd example_server)
     (example_request ''GET'' ''/hello.txt'' ''HTTP/1.1'') =
   answer (example_env 1762181400) (cwd example_server)
     (example_request ''GET'' ''/hello.txt'' ''HTTP/1.1'') \<and>
   map_sum id bodies (handle_one_request ((example_env 1762181400)\<lparr>clock := 1762181401\<rparr>)
     (new_handler (cwd example_server) (example_request ''GET'' ''/hello.txt'' ''HTTP/1.1''))) =
   map_sum id bodies (handle_one_request (example_env 1762181400)
     (new_handler (cwd example_server) (example_request ''GET'' ''/hello.txt'' ''HTTP/1.1'')))"
proof -
  have c: "1762181400 = clock (example_env 1762181400)"
    by (simp add: example_env_fields)
  from same_request_same_answer_but_date
    [where e = "example_env 1762181400" and t = 1762181400
       and rq = "example_request ''GET'' ''/hello.txt'' ''HTTP/1.1''" and p = example_server]
  have "answer ((example_env 1762181400)\<lparr>clock := 1762181400\<rparr>) (cwd example_server)
     (example_request ''GET'' ''/hello.txt'' ''HTTP/1.1'') =
   answer (example_env 1762181400) (cwd example_server)
     (example_request ''GET'' ''/hello.txt'' ''HTTP/1.1'')"
    using c by blast
  moreover from same_request_same_answer_but_date
    [where e = "example_env 1762181400" and t = 1762181401
       and rq = "example_request ''GET'' ''/hello.txt'' ''HTTP/1.1''" and p = example_server]
  have "map_sum id bodies (handle_one_request ((example_env 1762181400)\<lparr>clock := 1762181401\<rparr>)
     (new_handler (cwd example_server) (example_request ''GET'' ''/hello.txt'' ''HTTP/1.1''))) =
   map_sum id bodies (handle_one_request (example_env 1762181400)
     (new_handler (cwd example_server) (example_request ''GET'' ''/hello.txt'' ''HTTP/1.1'')))"
    by blast
  ultimately show ?thesis using c by blast
qed

section \<open>C10: the message is printed before the bind\<close>

text \<open>
  C10. When the working directory can be changed and the bind raises \<^verbatim>\<open>OSError\<close> (the port
  is in use), the program ends with that fault in a state where the message
  \<^verbatim>\<open>Serving at http://localhost:9091 (no-cache)\<close> is already on standard output.
\<close>

theorem message_printed_before_bind:
  assumes "can_chdir os (dirname (abspath (cwd p0) file))"
    and "\<not> can_bind os ([], 9091)"
  shows "startup os file argv environ p0 =
     Inl (OSError,
          p0\<lparr>cwd := dirname (abspath (cwd p0) file),
             stdout := stdout p0 @ ''Serving at http://localhost:9091 (no-cache)'' @ [CHR 0x0A]\<rparr>)"
  using assms by (simp add: startup_def Let_def)

text \<open>
  On a system where port 9091 is taken.
\<close>

theorem message_printed_before_bind_witness:
  "can_chdir example_platform_port_taken ''/srv/chess-game'' \<and>
   \<not> can_bind example_platform_port_taken ([], 9091) \<and>
   startup example_platform_port_taken ''/srv/chess-game/serve.py'' [] [] example_process =
     Inl (OSError,
          \<lparr>cwd = ''/srv/chess-game'',
           stdout = ''Serving at http://localhost:9091 (no-cache)'' @ [CHR 0x0A],
           listening = None, shutdown_request = False, served = []\<rparr>)"
proof -
  have c: "can_chdir example_platform_port_taken
      (dirname (abspath (cwd example_process) ''/srv/chess-game/serve.py''))"
    by (simp add: example_root example_platform_port_taken_def example_can_chdir_def)
  have b: "\<not> can_bind example_platform_port_taken ([], 9091)"
    by (simp add: example_platform_port_taken_def example_port_taken_def)
  have "startup example_platform_port_taken ''/srv/chess-game/serve.py'' [] [] example_process =
     Inl (OSError,
          example_process\<lparr>cwd := ''/srv/chess-game'',
             stdout := stdout example_process @
               ''Serving at http://localhost:9091 (no-cache)'' @ [CHR 0x0A]\<rparr>)"
    using message_printed_before_bind [OF c b, where argv = "[]" and environ = "[]"]
    by (simp only: example_root)
  moreover have "can_chdir example_platform_port_taken ''/srv/chess-game''"
    using c by (simp only: example_root)
  ultimately show ?thesis
    using b by (simp add: example_process_def)
qed

end
